theory Spec2Isabelle
  imports Complex_Main
begin

section \<open>Values decoded from the DevTools protocol\<close>

text \<open>
  The Go type \<open>float64\<close>. Every finite value is a real number; the three special values
  are kept apart. The finite case over-approximates the set of representable values,
  which only strengthens statements quantified over all of them.
\<close>

datatype float64 = Finite real | PosInf | NegInf | NaN

text \<open>
  The Go type \<open>interface{}\<close> as produced by decoding JSON generically: numbers are
  \<open>float64\<close>, arrays are \<open>[]interface{}\<close>, objects are \<open>map[string]interface{}\<close>.
  An object is kept as an association list read with \<open>map_of\<close>; a key that is absent
  from the list is absent from the Go map.
\<close>

datatype jvalue =
    JNull
  | JBool bool
  | JNumber float64
  | JString string
  | JArray "jvalue list"
  | JObject "(string \<times> jvalue) list"

text \<open>\<open>type Node map[string]interface{}\<close>\<close>

type_synonym Node = "(string \<times> jvalue) list"

text \<open>The field names of package \<open>dom\<close>.\<close>

abbreviation NodeID_key :: string where "NodeID_key \<equiv> ''nodeId''"
abbreviation BackendNodeID_key :: string where "BackendNodeID_key \<equiv> ''backendNodeId''"
abbreviation NodeName_key :: string where "NodeName_key \<equiv> ''nodeName''"
abbreviation NodeValue_key :: string where "NodeValue_key \<equiv> ''nodeValue''"
abbreviation Children_key :: string where "Children_key \<equiv> ''children''"
abbreviation ParentNodeID_key :: string where "ParentNodeID_key \<equiv> ''parentNodeId''"
abbreviation PreviousNodeID_key :: string where "PreviousNodeID_key \<equiv> ''previousNodeId''"
abbreviation NodeField_key :: string where "NodeField_key \<equiv> ''node''"
abbreviation Attributes_key :: string where "Attributes_key \<equiv> ''attributes''"
abbreviation Nodes_key :: string where "Nodes_key \<equiv> ''nodes''"
abbreviation ParentID_key :: string where "ParentID_key \<equiv> ''parentId''"

section \<open>Results of a call\<close>

text \<open>
  A Go function of package \<open>dom\<close> either returns a value with a nil error, returns a
  non-nil error, or panics at run time (a failed unchecked type assertion
  \<open>x.(T)\<close>, an index out of range).
\<close>

datatype error =
    MissingField string
  | NotANumber string
  | ParentDoesNotExist
  | PreviousDoesNotExist
  | NoBackendNode string
  | InstanceDoesNotExist

datatype panic = TypeAssertion | IndexOutOfRange

datatype 'a outcome = Return 'a | Failure error | Panic panic

section \<open>Conversion of node IDs\<close>

text \<open>
  \<open>strconv.Itoa\<close>: the decimal digits of an integer, with a minus sign when negative.
\<close>

definition digit_char :: "nat \<Rightarrow> char" where
  "digit_char d = ''0123456789'' ! d"

function nat_digits :: "nat \<Rightarrow> string" where
  "nat_digits n =
     (if n < 10 then [digit_char n] else nat_digits (n div 10) @ [digit_char (n mod 10)])"
  by pat_completeness auto
termination
  by (relation "measure id") auto

declare nat_digits.simps [simp del]

definition Itoa :: "int \<Rightarrow> string" where
  "Itoa i = (if i < 0 then CHR ''-'' # nat_digits (nat (- i)) else nat_digits (nat i))"

text \<open>Rounding toward zero.\<close>

definition trunc_toward_zero :: "real \<Rightarrow> int" where
  "trunc_toward_zero x = (if 0 \<le> x then \<lfloor>x\<rfloor> else \<lceil>x\<rceil>)"

text \<open>
  The Go conversion \<open>int(f)\<close> of a \<open>float64\<close>, with \<open>int\<close> 64 bits wide. The fraction is
  discarded. When the truncated value does not fit the result type (and for NaN and the
  infinities) the language leaves the result to the implementation; the amd64 compiler
  emits the instruction whose answer is then the smallest 64-bit integer.
\<close>

definition int_of_float64 :: "float64 \<Rightarrow> int" where
  "int_of_float64 f =
     (case f of
        Finite x \<Rightarrow>
          (if - (2 ^ 63) \<le> trunc_toward_zero x \<and> trunc_toward_zero x < 2 ^ 63 then trunc_toward_zero x else - (2 ^ 63))
      | PosInf \<Rightarrow> - (2 ^ 63)
      | NegInf \<Rightarrow> - (2 ^ 63)
      | NaN \<Rightarrow> - (2 ^ 63))"

text \<open>The comparison \<open>idFloat == 0\<close>; it holds for both signed zeros and never for NaN.\<close>

definition is_zero :: "float64 \<Rightarrow> bool" where
  "is_zero f = (case f of Finite x \<Rightarrow> x = 0 | PosInf \<Rightarrow> False | NegInf \<Rightarrow> False | NaN \<Rightarrow> False)"

definition getNodeIDStr :: "Node \<Rightarrow> string \<Rightarrow> string outcome" where
  "getNodeIDStr node field =
     (case map_of node field of
        None \<Rightarrow> Failure (MissingField field)
      | Some idInterface \<Rightarrow>
          (case idInterface of
             JNumber idFloat \<Rightarrow>
               (if is_zero idFloat then Return []
                else Return (Itoa (int_of_float64 idFloat)))
           | JNull \<Rightarrow> Failure (NotANumber field)
           | JBool b \<Rightarrow> Failure (NotANumber field)
           | JString s \<Rightarrow> Failure (NotANumber field)
           | JArray xs \<Rightarrow> Failure (NotANumber field)
           | JObject kvs \<Rightarrow> Failure (NotANumber field)))"

section \<open>Attributes\<close>

text \<open>
  The loop of \<open>getAttributes\<close>, by the index \<open>i\<close> it advances in steps of two. The
  left operand \<open>attributesPairs[i].(string)\<close> is evaluated before the right one
  \<open>attributesPairs[i+1].(string)\<close>, so a key that is no string panics first.
\<close>

function getAttributes_loop ::
  "jvalue list \<Rightarrow> nat \<Rightarrow> (string \<rightharpoonup> string) \<Rightarrow> (string \<rightharpoonup> string) outcome" where
  "getAttributes_loop attributesPairs i attributesMap =
     (if i < length attributesPairs then
        (case attributesPairs ! i of
           JString k \<Rightarrow>
             (if i + 1 < length attributesPairs then
                (case attributesPairs ! (i + 1) of
                   JString v \<Rightarrow> getAttributes_loop attributesPairs (i + 2) (attributesMap(k \<mapsto> v))
                 | JNull \<Rightarrow> Panic TypeAssertion
                 | JBool b \<Rightarrow> Panic TypeAssertion
                 | JNumber f \<Rightarrow> Panic TypeAssertion
                 | JArray xs \<Rightarrow> Panic TypeAssertion
                 | JObject kvs \<Rightarrow> Panic TypeAssertion)
              else Panic IndexOutOfRange)
         | JNull \<Rightarrow> Panic TypeAssertion
         | JBool b \<Rightarrow> Panic TypeAssertion
         | JNumber f \<Rightarrow> Panic TypeAssertion
         | JArray xs \<Rightarrow> Panic TypeAssertion
         | JObject kvs \<Rightarrow> Panic TypeAssertion)
      else Return attributesMap)"
  by pat_completeness auto
termination
  by (relation "measure (\<lambda>(attributesPairs, i, attributesMap). length attributesPairs - i)") auto

definition getAttributes :: "Node \<Rightarrow> (string \<rightharpoonup> string) outcome" where
  "getAttributes node =
     (case map_of node Attributes_key of
        Some (JArray attributesPairs) \<Rightarrow> getAttributes_loop attributesPairs 0 Map.empty
      | _ \<Rightarrow> Return Map.empty)"

text \<open>The flat list \<open>[k0, v0, k1, v1, ...]\<close> the protocol sends for a list of pairs.\<close>

definition flat_pairs :: "(string \<times> string) list \<Rightarrow> jvalue list" where
  "flat_pairs kvs = concat (map (\<lambda>(k, v). [JString k, JString v]) kvs)"

definition is_string :: "jvalue \<Rightarrow> bool" where
  "is_string v = (case v of JString s \<Rightarrow> True | _ \<Rightarrow> False)"

definition is_number :: "jvalue \<Rightarrow> bool" where
  "is_number v = (case v of JNumber f \<Rightarrow> True | _ \<Rightarrow> False)"

section \<open>The DOM model\<close>

text \<open>\<open>strings.ToLower\<close> on the ASCII letters; every other byte is left as it is.\<close>

definition ToLower_char :: "char \<Rightarrow> char" where
  "ToLower_char c =
     (case map_of (zip ''ABCDEFGHIJKLMNOPQRSTUVWXYZ'' ''abcdefghijklmnopqrstuvwxyz'') c of
        Some l \<Rightarrow> l
      | None \<Rightarrow> c)"

definition ToLower :: "string \<Rightarrow> string" where
  "ToLower s = map ToLower_char s"

datatype Action = Invalid | Insert | Remove | Modify

record JSONNode =
  NodeID :: string
  ParentNodeID :: string
  PreviousNodeID :: string
  ElementType :: string
  Attributes :: "string \<rightharpoonup> string"
  Text :: string

record DOMUpdate =
  Action :: Action
  Node :: JSONNode

record DOM =
  nodeIDMapping :: "string \<rightharpoonup> string"
  backendNodeIDs :: "string \<rightharpoonup> bool"
  nodeTypeMapping :: "string \<rightharpoonup> string"

definition NewDOMModel :: DOM where
  "NewDOMModel = \<lparr>nodeIDMapping = Map.empty, backendNodeIDs = Map.empty, nodeTypeMapping = Map.empty\<rparr>"

text \<open>Reading a Go \<open>map[string]string\<close> at a key that is absent gives the empty string.\<close>

definition index_or_empty :: "(string \<rightharpoonup> string) \<Rightarrow> string \<Rightarrow> string" where
  "index_or_empty m k = (case m k of None \<Rightarrow> [] | Some v \<Rightarrow> v)"

definition getBackendNodeID :: "DOM \<Rightarrow> string \<Rightarrow> string outcome" where
  "getBackendNodeID d nodeID =
     (case nodeIDMapping d nodeID of
        None \<Rightarrow> Failure (NoBackendNode nodeID)
      | Some backendNodeID \<Rightarrow> Return backendNodeID)"

definition createNodeInsertUpdate ::
  "DOM \<Rightarrow> string \<Rightarrow> string \<Rightarrow> string \<Rightarrow> Node \<Rightarrow> DOM \<times> DOMUpdate outcome" where
  "createNodeInsertUpdate d nodeID parentNodeID prevNodeID node =
     (case map_of node NodeName_key of
        Some (JString elementType) \<Rightarrow>
          (case (if ToLower elementType \<noteq> ''script'' then getAttributes node else Return Map.empty) of
             Return attributes \<Rightarrow>
               (case map_of node NodeValue_key of
                  Some (JString text) \<Rightarrow>
                    (d\<lparr>nodeTypeMapping := (nodeTypeMapping d)(nodeID \<mapsto> elementType)\<rparr>,
                     Return \<lparr>Action = Insert,
                             Node = \<lparr>NodeID = nodeID, ParentNodeID = parentNodeID,
                                     PreviousNodeID = prevNodeID, ElementType = elementType,
                                     Attributes = attributes, Text = text\<rparr>\<rparr>)
                | _ \<Rightarrow> (d, Panic TypeAssertion))
           | Failure e \<Rightarrow> (d, Failure e)
           | Panic p \<Rightarrow> (d, Panic p))
      | _ \<Rightarrow> (d, Panic TypeAssertion))"

definition createNodeRemovalUpdate :: "string \<Rightarrow> string \<Rightarrow> DOMUpdate" where
  "createNodeRemovalUpdate nodeID parentNodeID =
     \<lparr>Action = Remove,
      Node = \<lparr>NodeID = nodeID, ParentNodeID = parentNodeID, PreviousNodeID = [],
              ElementType = [], Attributes = Map.empty, Text = []\<rparr>\<rparr>"

lemma size_map_of_aux:
  "map_of kvs k = Some v \<Longrightarrow> size v < size_list (size_prod (\<lambda>_. 0) size) kvs"
  by (induction kvs) (auto split: if_splits)

text \<open>
  The block of \<open>generateInitialDOMHelper\<close> guarded by
  \<open>if _, ok := d.backendNodeIDs[backendNodeID]; !ok\<close>: a stable ID seen for the first
  time is recorded, and its insert is appended unless the recorded type of the parent is
  \<open>script\<close>.
\<close>

definition generateInitialDOMHelper_emit ::
  "DOM \<Rightarrow> Node \<Rightarrow> string \<Rightarrow> string \<Rightarrow> string \<Rightarrow> DOMUpdate list
     \<Rightarrow> DOM \<times> DOMUpdate list \<times> unit outcome" where
  "generateInitialDOMHelper_emit d curNode backendNodeID parentNodeID prevNodeID result =
     (if backendNodeIDs d backendNodeID = None then
        (let d0 = d\<lparr>backendNodeIDs := (backendNodeIDs d)(backendNodeID \<mapsto> True)\<rparr> in
         if ToLower (index_or_empty (nodeTypeMapping d0) parentNodeID) \<noteq> ''script'' then
           (case createNodeInsertUpdate d0 backendNodeID parentNodeID prevNodeID curNode of
              (d1, Return ins) \<Rightarrow> (d1, result @ [ins], Return ())
            | (d1, Failure e) \<Rightarrow> (d1, result, Failure e)
            | (d1, Panic p) \<Rightarrow> (d1, result, Panic p))
         else (d0, result, Return ()))
      else (d, result, Return ()))"

function generateInitialDOMHelper ::
    "DOM \<Rightarrow> Node \<Rightarrow> string \<Rightarrow> string \<Rightarrow> DOMUpdate list \<Rightarrow> DOM \<times> DOMUpdate list \<times> string outcome"
  and generateInitialDOMHelper_children ::
    "DOM \<Rightarrow> jvalue list \<Rightarrow> string \<Rightarrow> string \<Rightarrow> DOMUpdate list \<Rightarrow> DOM \<times> DOMUpdate list \<times> string outcome"
where
  "generateInitialDOMHelper d curNode parentNodeID prevNodeID result =
     (case getNodeIDStr curNode BackendNodeID_key of
        Failure e \<Rightarrow> (d, result, Failure e)
      | Panic p \<Rightarrow> (d, result, Panic p)
      | Return backendNodeID \<Rightarrow>
     (case getNodeIDStr curNode NodeID_key of
        Failure e \<Rightarrow> (d, result, Failure e)
      | Panic p \<Rightarrow> (d, result, Panic p)
      | Return nodeID \<Rightarrow>
     (case generateInitialDOMHelper_emit d curNode backendNodeID parentNodeID prevNodeID result of
        (d1, result1, Failure e) \<Rightarrow> (d1, result1, Failure e)
      | (d1, result1, Panic p) \<Rightarrow> (d1, result1, Panic p)
      | (d1, result1, Return u) \<Rightarrow>
     (case (case map_of curNode Children_key of
              None \<Rightarrow> (d1, result1, Return [])
            | Some JNull \<Rightarrow> (d1, result1, Return [])
            | Some (JArray children) \<Rightarrow>
                generateInitialDOMHelper_children d1 children backendNodeID [] result1
            | Some (JBool b) \<Rightarrow> (d1, result1, Panic TypeAssertion)
            | Some (JNumber f) \<Rightarrow> (d1, result1, Panic TypeAssertion)
            | Some (JString s) \<Rightarrow> (d1, result1, Panic TypeAssertion)
            | Some (JObject kvs) \<Rightarrow> (d1, result1, Panic TypeAssertion)) of
        (d2, result2, Failure e) \<Rightarrow> (d2, result2, Failure e)
      | (d2, result2, Panic p) \<Rightarrow> (d2, result2, Panic p)
      | (d2, result2, Return lastID) \<Rightarrow>
          (d2\<lparr>nodeIDMapping := (nodeIDMapping d2)(nodeID \<mapsto> backendNodeID)\<rparr>,
           result2, Return backendNodeID)))))"
| "generateInitialDOMHelper_children d [] backendNodeID prevNodeID result =
     (d, result, Return prevNodeID)"
| "generateInitialDOMHelper_children d (c # children) backendNodeID prevNodeID result =
     (case c of
        JObject childNode \<Rightarrow>
          (case generateInitialDOMHelper d childNode backendNodeID prevNodeID result of
             (d1, result1, Return prevNodeID1) \<Rightarrow>
               generateInitialDOMHelper_children d1 children backendNodeID prevNodeID1 result1
           | (d1, result1, Failure e) \<Rightarrow> (d1, result1, Failure e)
           | (d1, result1, Panic p) \<Rightarrow> (d1, result1, Panic p))
      | JNull \<Rightarrow> (d, result, Panic TypeAssertion)
      | JBool b \<Rightarrow> (d, result, Panic TypeAssertion)
      | JNumber f \<Rightarrow> (d, result, Panic TypeAssertion)
      | JString s \<Rightarrow> (d, result, Panic TypeAssertion)
      | JArray xs \<Rightarrow> (d, result, Panic TypeAssertion))"
  by pat_completeness auto
termination
  apply (relation "measure (\<lambda>x. case x of
            Inl (d, curNode, parentNodeID, prevNodeID, result) \<Rightarrow> size (JObject curNode)
          | Inr (d, children, backendNodeID, prevNodeID, result) \<Rightarrow> size (JArray children))")
     apply simp
    apply (auto dest: size_map_of_aux)
  done

definition GenerateInitialDOM :: "DOM \<Rightarrow> Node \<Rightarrow> DOM \<times> DOMUpdate list outcome" where
  "GenerateInitialDOM d rootNode =
     (case generateInitialDOMHelper d rootNode [] [] [] of
        (d1, result, Return backendNodeID) \<Rightarrow> (d1, Return result)
      | (d1, result, Failure e) \<Rightarrow> (d1, Failure e)
      | (d1, result, Panic p) \<Rightarrow> (d1, Panic p))"

text \<open>
  The loop of \<open>ProcessSetChildNodes\<close>. The error of the helper is not looked at, and
  neither is the one of \<open>getNodeIDStr\<close>, whose string is empty when it fails; only a
  panic leaves the loop.
\<close>

fun ProcessSetChildNodes_loop ::
  "DOM \<Rightarrow> jvalue list \<Rightarrow> string \<Rightarrow> string \<Rightarrow> DOMUpdate list \<Rightarrow> DOM \<times> DOMUpdate list outcome" where
  "ProcessSetChildNodes_loop d [] parentBackendID prevNodeID result = (d, Return result)"
| "ProcessSetChildNodes_loop d (nodeInterface # nodes) parentBackendID prevNodeID result =
     (case nodeInterface of
        JObject curNode \<Rightarrow>
          (case generateInitialDOMHelper d curNode parentBackendID prevNodeID [] of
             (d1, nodeSubTreeUpdates, Panic p) \<Rightarrow> (d1, Panic p)
           | (d1, nodeSubTreeUpdates, Failure e) \<Rightarrow>
               ProcessSetChildNodes_loop d1 nodes parentBackendID
                 (case getNodeIDStr curNode BackendNodeID_key of Return s \<Rightarrow> s | Failure e \<Rightarrow> [] | Panic p \<Rightarrow> [])
                 (result @ nodeSubTreeUpdates)
           | (d1, nodeSubTreeUpdates, Return backendNodeID) \<Rightarrow>
               ProcessSetChildNodes_loop d1 nodes parentBackendID
                 (case getNodeIDStr curNode BackendNodeID_key of Return s \<Rightarrow> s | Failure e \<Rightarrow> [] | Panic p \<Rightarrow> [])
                 (result @ nodeSubTreeUpdates))
      | JNull \<Rightarrow> (d, Panic TypeAssertion)
      | JBool b \<Rightarrow> (d, Panic TypeAssertion)
      | JNumber f \<Rightarrow> (d, Panic TypeAssertion)
      | JString s \<Rightarrow> (d, Panic TypeAssertion)
      | JArray xs \<Rightarrow> (d, Panic TypeAssertion))"

definition ProcessSetChildNodes :: "DOM \<Rightarrow> Node \<Rightarrow> DOM \<times> DOMUpdate list outcome" where
  "ProcessSetChildNodes d node =
     (case getNodeIDStr node ParentID_key of
        Failure e \<Rightarrow> (d, Failure e)
      | Panic p \<Rightarrow> (d, Panic p)
      | Return parentNodeID \<Rightarrow>
     (case getBackendNodeID d parentNodeID of
        Failure e \<Rightarrow> (d, Failure e)
      | Panic p \<Rightarrow> (d, Panic p)
      | Return parentBackendID \<Rightarrow>
     (case map_of node Nodes_key of
        Some (JArray nodes) \<Rightarrow> ProcessSetChildNodes_loop d nodes parentBackendID [] []
      | _ \<Rightarrow> (d, Panic TypeAssertion))))"

text \<open>
  The two look-ups of \<open>ProcessNodeInsertion\<close> in \<open>nodeIDMapping\<close>: an empty ID (the
  protocol's 0) stays empty, any other ID must be a key of the mapping.
\<close>

definition ProcessNodeInsertion :: "DOM \<Rightarrow> Node \<Rightarrow> DOM \<times> DOMUpdate outcome" where
  "ProcessNodeInsertion d node =
     (case map_of node NodeField_key of
        Some (JObject nodeDetails) \<Rightarrow>
     (case getNodeIDStr node ParentNodeID_key of
        Failure e \<Rightarrow> (d, Failure e)
      | Panic p \<Rightarrow> (d, Panic p)
      | Return parentNodeID0 \<Rightarrow>
     (case (if parentNodeID0 \<noteq> [] then
              (case nodeIDMapping d parentNodeID0 of
                 None \<Rightarrow> Failure ParentDoesNotExist
               | Some b \<Rightarrow> Return b)
            else Return parentNodeID0) of
        Failure e \<Rightarrow> (d, Failure e)
      | Panic p \<Rightarrow> (d, Panic p)
      | Return parentNodeID \<Rightarrow>
     (case getNodeIDStr node PreviousNodeID_key of
        Failure e \<Rightarrow> (d, Failure e)
      | Panic p \<Rightarrow> (d, Panic p)
      | Return prevNodeID0 \<Rightarrow>
     (case (if prevNodeID0 \<noteq> [] then
              (case nodeIDMapping d prevNodeID0 of
                 None \<Rightarrow> Failure PreviousDoesNotExist
               | Some b \<Rightarrow> Return b)
            else Return prevNodeID0) of
        Failure e \<Rightarrow> (d, Failure e)
      | Panic p \<Rightarrow> (d, Panic p)
      | Return prevNodeID \<Rightarrow>
     (case getNodeIDStr nodeDetails NodeID_key of
        Failure e \<Rightarrow> (d, Failure e)
      | Panic p \<Rightarrow> (d, Panic p)
      | Return nodeID \<Rightarrow>
     (case getNodeIDStr nodeDetails BackendNodeID_key of
        Failure e \<Rightarrow> (d, Failure e)
      | Panic p \<Rightarrow> (d, Panic p)
      | Return backendNodeID \<Rightarrow>
     (case createNodeInsertUpdate d backendNodeID parentNodeID prevNodeID nodeDetails of
        (d1, Return ins) \<Rightarrow>
          (d1\<lparr>nodeIDMapping := (nodeIDMapping d1)(nodeID \<mapsto> backendNodeID)\<rparr>, Return ins)
      | (d1, Failure e) \<Rightarrow> (d1, Failure e)
      | (d1, Panic p) \<Rightarrow> (d1, Panic p))))))))
      | _ \<Rightarrow> (d, Panic TypeAssertion))"

definition ProcessNodeRemoval :: "DOM \<Rightarrow> Node \<Rightarrow> DOM \<times> DOMUpdate outcome" where
  "ProcessNodeRemoval d node =
     (case getNodeIDStr node ParentNodeID_key of
        Failure e \<Rightarrow> (d, Failure e)
      | Panic p \<Rightarrow> (d, Panic p)
      | Return parentNodeID \<Rightarrow>
     (case getBackendNodeID d parentNodeID of
        Failure e \<Rightarrow> (d, Failure e)
      | Panic p \<Rightarrow> (d, Panic p)
      | Return parentBackendID \<Rightarrow>
     (case getNodeIDStr node NodeID_key of
        Failure e \<Rightarrow> (d, Failure e)
      | Panic p \<Rightarrow> (d, Panic p)
      | Return nodeID \<Rightarrow>
     (case getBackendNodeID d nodeID of
        Failure e \<Rightarrow> (d, Failure e)
      | Panic p \<Rightarrow> (d, Panic p)
      | Return backendNodeID \<Rightarrow>
          (d\<lparr>nodeIDMapping := (nodeIDMapping d)(nodeID := None),
             backendNodeIDs := (backendNodeIDs d)(nodeID := None),
             nodeTypeMapping := (nodeTypeMapping d)(nodeID := None)\<rparr>,
           Return (createNodeRemovalUpdate backendNodeID parentBackendID))))))"

section \<open>The instance manager\<close>

text \<open>
  The manager holds pointers to instances. A pointer is an address into a heap of
  instances; \<open>connected\<close> is false once \<open>DisconnectAndTerminate\<close> has set
  \<open>devtoolsConn\<close> to nil and killed the process.
\<close>

type_synonym ref = nat

record Instance =
  port :: int
  connected :: bool

record InstanceManager =
  nextInstanceID :: int
  instanceQueue :: "int list"
  instances :: "int \<rightharpoonup> ref"
  urls :: "int \<rightharpoonup> string"
  useFullChrome :: bool

record world =
  manager :: InstanceManager
  heap :: "ref \<rightharpoonup> Instance"

definition RemoveInstance :: "world \<Rightarrow> int \<Rightarrow> world \<times> unit outcome" where
  "RemoveInstance w instanceID =
     (case instances (manager w) instanceID of
        None \<Rightarrow> (w, Failure InstanceDoesNotExist)
      | Some inst \<Rightarrow>
          (w\<lparr>manager := (manager w)\<lparr>instances := (instances (manager w))(instanceID := None),
                                     urls := (urls (manager w))(instanceID := None)\<rparr>\<rparr>,
           Return ()))"

section \<open>Conditions on the payload of an insertion\<close>

text \<open>
  The conditions under which \<open>ProcessNodeInsertion\<close> is said to fail or to succeed, in
  terms of the payload alone: an ID field is usable when it is present and a number; a
  reference is unknown when it is a non-zero number whose decimal string is no key of
  \<open>nodeIDMapping\<close>.
\<close>

definition id_field_ok :: "Node \<Rightarrow> string \<Rightarrow> bool" where
  "id_field_ok node field = (case map_of node field of Some (JNumber f) \<Rightarrow> True | _ \<Rightarrow> False)"

definition id_string :: "Node \<Rightarrow> string \<Rightarrow> string" where
  "id_string node field =
     (case map_of node field of
        Some (JNumber f) \<Rightarrow> (if is_zero f then [] else Itoa (int_of_float64 f))
      | _ \<Rightarrow> [])"

definition unknown_ref :: "DOM \<Rightarrow> Node \<Rightarrow> string \<Rightarrow> bool" where
  "unknown_ref d node field =
     (case map_of node field of
        Some (JNumber f) \<Rightarrow> \<not> is_zero f \<and> nodeIDMapping d (Itoa (int_of_float64 f)) = None
      | _ \<Rightarrow> False)"

definition insertion_rejected :: "DOM \<Rightarrow> Node \<Rightarrow> Node \<Rightarrow> bool" where
  "insertion_rejected d payload nodeDetails =
     (\<not> id_field_ok payload ParentNodeID_key \<or> \<not> id_field_ok payload PreviousNodeID_key
      \<or> \<not> id_field_ok nodeDetails NodeID_key \<or> \<not> id_field_ok nodeDetails BackendNodeID_key
      \<or> unknown_ref d payload ParentNodeID_key \<or> unknown_ref d payload PreviousNodeID_key)"

definition stable_of :: "DOM \<Rightarrow> string \<Rightarrow> string" where
  "stable_of d nodeID = (if nodeID = [] then [] else index_or_empty (nodeIDMapping d) nodeID)"

definition details_well_formed :: "Node \<Rightarrow> bool" where
  "details_well_formed nodeDetails =
     (case map_of nodeDetails NodeName_key of
        Some (JString elementType) \<Rightarrow>
          (case map_of nodeDetails NodeValue_key of
             Some (JString text) \<Rightarrow>
               (ToLower elementType = ''script''
                \<or> (case getAttributes nodeDetails of Return m \<Rightarrow> True | _ \<Rightarrow> False))
           | _ \<Rightarrow> False)
      | _ \<Rightarrow> False)"

section \<open>Notions used to state what the walk emits\<close>

text \<open>
  \<open>subnode m n\<close>: the node \<open>m\<close> is \<open>n\<close> itself or lies below it, through the
  \<open>children\<close> arrays.
\<close>

inductive subnode :: "Node \<Rightarrow> Node \<Rightarrow> bool" where
  subnode_self: "subnode n n"
| subnode_child:
    "map_of n Children_key = Some (JArray cs) \<Longrightarrow> JObject c \<in> set cs \<Longrightarrow> subnode m c \<Longrightarrow> subnode m n"

text \<open>
  \<open>is_insert_of node u\<close>: the update \<open>u\<close> is an insert for the protocol node \<open>node\<close>, with
  the name of the node as its element type and with the attributes that
  \<open>createNodeInsertUpdate\<close> gives it: none for a script element, and otherwise all the
  pairs that \<open>getAttributes\<close> returns.
\<close>

definition is_insert_of :: "Node \<Rightarrow> DOMUpdate \<Rightarrow> bool" where
  "is_insert_of node u =
     (Action u = Insert
      \<and> map_of node NodeName_key = Some (JString (ElementType (Node u)))
      \<and> (if ToLower (ElementType (Node u)) \<noteq> ''script'' then getAttributes node else Return Map.empty)
            = Return (Attributes (Node u)))"

text \<open>
  \<open>kind_is_script d k\<close>: the type recorded for the stable ID \<open>k\<close> is \<open>script\<close>, in any
  case of the letters; an ID without an entry has the empty type.
\<close>

definition kind_is_script :: "DOM \<Rightarrow> string \<Rightarrow> bool" where
  "kind_is_script d k = (ToLower (index_or_empty (nodeTypeMapping d) k) = ''script'')"

text \<open>
  \<open>grows d d'\<close>: every stable ID known in \<open>d\<close> is known in \<open>d'\<close> with the same type entry,
  and an ID that is unknown in \<open>d'\<close> has the type entry it had in \<open>d\<close>.
\<close>

definition grows :: "DOM \<Rightarrow> DOM \<Rightarrow> bool" where
  "grows d d' =
     ((\<forall>k. backendNodeIDs d k \<noteq> None \<longrightarrow>
           backendNodeIDs d' k \<noteq> None \<and> nodeTypeMapping d' k = nodeTypeMapping d k)
      \<and> (\<forall>k. backendNodeIDs d' k = None \<longrightarrow> nodeTypeMapping d' k = nodeTypeMapping d k))"

text \<open>
  \<open>parent_not_script d d' p0 u\<close>, for an update \<open>u\<close> emitted by a walk that was started in
  the state \<open>d\<close> with the parent \<open>p0\<close> and ended in \<open>d'\<close>: the parent of \<open>u\<close> is a known
  stable ID whose type in \<open>d'\<close> is not \<open>script\<close>, or it is \<open>p0\<close> and the type of \<open>p0\<close> in
  \<open>d\<close> is not \<open>script\<close>.
\<close>

definition parent_not_script :: "DOM \<Rightarrow> DOM \<Rightarrow> string \<Rightarrow> DOMUpdate \<Rightarrow> bool" where
  "parent_not_script d d' p0 u =
     ((backendNodeIDs d' (ParentNodeID (Node u)) \<noteq> None \<and> \<not> kind_is_script d' (ParentNodeID (Node u)))
      \<or> (ParentNodeID (Node u) = p0 \<and> \<not> kind_is_script d p0))"

section \<open>Protocol trees and payloads used as examples\<close>

text \<open>The tree of the test \<open>TestGenerateInitialDOM\<close>.\<close>

definition tree_abc :: Node where
  "tree_abc =
     [(NodeID_key, JNumber (Finite 1)), (BackendNodeID_key, JNumber (Finite 1)),
      (NodeValue_key, JString ''a''), (''localName'', JString ''a''), (NodeName_key, JString ''a''),
      (Attributes_key, JArray [JString ''foo00'', JString ''bar00'']),
      (Children_key, JArray
        [JObject [(NodeID_key, JNumber (Finite 2)), (BackendNodeID_key, JNumber (Finite 2)),
                  (NodeValue_key, JString ''b''), (''localName'', JString ''b''), (NodeName_key, JString ''b''),
                  (Attributes_key, JArray [JString ''foo10'', JString ''bar10'']),
                  (Children_key, JArray [])],
         JObject [(NodeID_key, JNumber (Finite 3)), (BackendNodeID_key, JNumber (Finite 3)),
                  (NodeValue_key, JString ''c''), (''localName'', JString ''c''), (NodeName_key, JString ''c''),
                  (Attributes_key, JArray [JString ''foo20'', JString ''bar20'']),
                  (Children_key, JArray [])]])]"

text \<open>A root with one child whose protocol IDs 1, 2 differ from the stable IDs 10, 20.\<close>

definition tree_two_ids :: Node where
  "tree_two_ids =
     [(NodeID_key, JNumber (Finite 1)), (BackendNodeID_key, JNumber (Finite 10)),
      (NodeName_key, JString ''a''), (NodeValue_key, JString []),
      (Children_key, JArray
        [JObject [(NodeID_key, JNumber (Finite 2)), (BackendNodeID_key, JNumber (Finite 20)),
                  (NodeName_key, JString ''b''), (NodeValue_key, JString [])]])]"

definition removal_of_2 :: Node where
  "removal_of_2 = [(ParentNodeID_key, JNumber (Finite 1)), (NodeID_key, JNumber (Finite 2))]"

text \<open>The first payload of the test \<open>TestGenerateModificationUpdate\<close>, and its node.\<close>

definition details_first :: Node where
  "details_first =
     [(NodeID_key, JNumber (Finite 4)), (BackendNodeID_key, JNumber (Finite 4)),
      (NodeValue_key, JString ''first''), (NodeName_key, JString ''first'')]"

definition payload_first :: Node where
  "payload_first =
     [(ParentNodeID_key, JNumber (Finite 0)), (PreviousNodeID_key, JNumber (Finite 0)),
      (NodeField_key, JObject details_first)]"

text \<open>The same node under a parent with the protocol ID 7, which no model has seen.\<close>

definition payload_orphan :: Node where
  "payload_orphan =
     [(ParentNodeID_key, JNumber (Finite 7)), (PreviousNodeID_key, JNumber (Finite 0)),
      (NodeField_key, JObject details_first)]"

text \<open>A payload whose node has both IDs and no \<open>nodeName\<close>.\<close>

definition payload_nameless :: Node where
  "payload_nameless =
     [(ParentNodeID_key, JNumber (Finite 0)), (PreviousNodeID_key, JNumber (Finite 0)),
      (NodeField_key, JObject [(NodeID_key, JNumber (Finite 4)), (BackendNodeID_key, JNumber (Finite 4))])]"

text \<open>A node with an \<open>onclick\<close> attribute, inserted as a first child of the root.\<close>

definition payload_onclick :: Node where
  "payload_onclick =
     [(ParentNodeID_key, JNumber (Finite 0)), (PreviousNodeID_key, JNumber (Finite 0)),
      (NodeField_key, JObject
        [(NodeID_key, JNumber (Finite 5)), (BackendNodeID_key, JNumber (Finite 5)),
         (NodeName_key, JString ''DIV''), (NodeValue_key, JString []),
         (Attributes_key, JArray [JString ''onclick'', JString ''f()''])])]"

text \<open>
  A document \<open>HTML > SCRIPT > B > #text\<close>: the text node has a script element among its
  ancestors, but its parent is not one.
\<close>

definition tree_under_script :: Node where
  "tree_under_script =
     [(NodeID_key, JNumber (Finite 1)), (BackendNodeID_key, JNumber (Finite 1)),
      (NodeName_key, JString ''HTML''), (NodeValue_key, JString []),
      (Children_key, JArray
        [JObject
          [(NodeID_key, JNumber (Finite 2)), (BackendNodeID_key, JNumber (Finite 2)),
           (NodeName_key, JString ''SCRIPT''), (NodeValue_key, JString []),
           (Children_key, JArray
             [JObject
               [(NodeID_key, JNumber (Finite 3)), (BackendNodeID_key, JNumber (Finite 3)),
                (NodeName_key, JString ''B''), (NodeValue_key, JString []),
                (Children_key, JArray
                  [JObject
                    [(NodeID_key, JNumber (Finite 4)), (BackendNodeID_key, JNumber (Finite 4)),
                     (NodeName_key, JString ''#text''), (NodeValue_key, JString ''x'')]])]])]])]"

text \<open>
  A root, the event \<open>DOM.childNodeInserted\<close> for a child \<open>B\<close> of it, and the event
  \<open>DOM.setChildNodes\<close> that lists the same child.
\<close>

definition tree_root_only :: Node where
  "tree_root_only =
     [(NodeID_key, JNumber (Finite 1)), (BackendNodeID_key, JNumber (Finite 1)),
      (NodeName_key, JString ''A''), (NodeValue_key, JString [])]"

definition node_b :: Node where
  "node_b =
     [(NodeID_key, JNumber (Finite 2)), (BackendNodeID_key, JNumber (Finite 2)),
      (NodeName_key, JString ''B''), (NodeValue_key, JString [])]"

definition insertion_of_b :: Node where
  "insertion_of_b =
     [(ParentNodeID_key, JNumber (Finite 1)), (PreviousNodeID_key, JNumber (Finite 0)),
      (NodeField_key, JObject node_b)]"

definition set_children_b :: Node where
  "set_children_b = [(ParentID_key, JNumber (Finite 1)), (Nodes_key, JArray [JObject node_b])]"

text \<open>A manager that holds one instance, with the ID 0, assigned to a URL.\<close>

definition world_one :: world where
  "world_one =
     \<lparr>manager = \<lparr>nextInstanceID = 1, instanceQueue = [], instances = [0 \<mapsto> 0],
                 urls = [0 \<mapsto> ''http://example.com/''], useFullChrome = False\<rparr>,
      heap = [0 \<mapsto> \<lparr>port = 9222, connected = True\<rparr>]\<rparr>"

text \<open>A further child \<open>BODY\<close> of the root of the document above, as the event \<open>DOM.setChildNodes\<close> sends it.\<close>

definition set_children_body :: Node where
  "set_children_body =
     [(ParentID_key, JNumber (Finite 1)),
      (Nodes_key, JArray
        [JObject [(NodeID_key, JNumber (Finite 6)), (BackendNodeID_key, JNumber (Finite 6)),
                  (NodeName_key, JString ''BODY''), (NodeValue_key, JString []),
                  (Attributes_key, JArray [JString ''onload'', JString ''g()''])]])]"

section \<open>Properties of the ID conversion\<close>

text \<open>
  C8 (as amended). \<open>getNodeIDStr\<close> returns the empty string when the field holds a zero;
  it returns the decimal string of the value truncated toward zero when the field holds
  a finite non-zero value whose truncation fits a 64-bit integer; and it returns an error
  exactly when the field is missing or holds something that is no number.
\<close>

theorem getNodeIDStr_truncates_in_range:
  "(map_of node field = Some (JNumber f) \<and> is_zero f \<longrightarrow> getNodeIDStr node field = Return []) \<and>
   (map_of node field = Some (JNumber (Finite x)) \<and> x \<noteq> 0
      \<and> - (2 ^ 63) \<le> trunc_toward_zero x \<and> trunc_toward_zero x < 2 ^ 63
      \<longrightarrow> getNodeIDStr node field = Return (Itoa (trunc_toward_zero x))) \<and>
   ((\<exists>e. getNodeIDStr node field = Failure e)
      \<longleftrightarrow> (map_of node field = None \<or> (\<exists>v. map_of node field = Some v \<and> \<not> is_number v)))"
  by (auto simp add: getNodeIDStr_def is_zero_def int_of_float64_def is_number_def
      split: option.splits jvalue.splits float64.splits)

theorem getNodeIDStr_truncates_in_range_witness:
  "map_of [(NodeID_key, JNumber (Finite 0))] NodeID_key = Some (JNumber (Finite 0))
     \<and> is_zero (Finite 0)
     \<and> getNodeIDStr [(NodeID_key, JNumber (Finite 0))] NodeID_key = Return []
   \<and> map_of [(NodeID_key, JNumber (Finite (- 7 / 2)))] NodeID_key = Some (JNumber (Finite (- 7 / 2)))
     \<and> (- 7 / 2 :: real) \<noteq> 0
     \<and> - (2 ^ 63) \<le> trunc_toward_zero (- 7 / 2) \<and> trunc_toward_zero (- 7 / 2) < 2 ^ 63
     \<and> getNodeIDStr [(NodeID_key, JNumber (Finite (- 7 / 2)))] NodeID_key = Return ''-3''
   \<and> map_of [(NodeID_key, JString ''4'')] NodeID_key = Some (JString ''4'')
     \<and> \<not> is_number (JString ''4'')
     \<and> getNodeIDStr [(NodeID_key, JString ''4'')] NodeID_key = Failure (NotANumber NodeID_key)"
  using getNodeIDStr_truncates_in_range [of "[(NodeID_key, JNumber (Finite 0))]" NodeID_key "Finite 0" 0]
    getNodeIDStr_truncates_in_range [of "[(NodeID_key, JNumber (Finite (- 7 / 2)))]" NodeID_key "Finite (- 7 / 2)" "- 7 / 2"]
    getNodeIDStr_truncates_in_range [of "[(NodeID_key, JString ''4'')]" NodeID_key NaN 1]
  by (simp add: is_zero_def trunc_toward_zero_def int_of_float64_def Itoa_def nat_digits.simps
      digit_char_def is_number_def getNodeIDStr_def)

text \<open>
  C8 as it is written fails at the value \<open>2 ^ 63\<close>, which a \<open>float64\<close> holds exactly:
  its truncation is no 64-bit integer, and the string returned is not its decimal string.
\<close>

theorem getNodeIDStr_large_counterexample:
  "getNodeIDStr [(NodeID_key, JNumber (Finite (2 ^ 63)))] NodeID_key
     = Return ''-9223372036854775808''
   \<and> getNodeIDStr [(NodeID_key, JNumber (Finite (2 ^ 63)))] NodeID_key
     \<noteq> Return (Itoa (trunc_toward_zero (2 ^ 63)))"
  by (simp add: getNodeIDStr_def is_zero_def int_of_float64_def trunc_toward_zero_def Itoa_def
      nat_digits.simps digit_char_def)

section \<open>Properties of the attribute list\<close>

declare getAttributes_loop.simps [simp del]


lemma getAttributes_loop_odd:
  "odd (length xs) \<Longrightarrow> even i \<Longrightarrow> i \<le> length xs \<Longrightarrow> \<exists>p. getAttributes_loop xs i m = Panic p"
proof (induction xs i m rule: getAttributes_loop.induct)
  case (1 xs i m)
  from "1.prems" have lt: "i < length xs"
    by (metis le_neq_implies_less)
  show ?case
  proof (cases "xs ! i")
    case (JString k)
    show ?thesis
    proof (cases "i + 1 < length xs")
      case True
      with "1.prems" have le2: "i + 2 \<le> length xs" by simp
      show ?thesis
      proof (cases "xs ! (i + 1)")
        case (JString v)
        from "1.IH" [OF lt \<open>xs ! i = JString k\<close> True JString "1.prems"(1) _ le2] "1.prems"(2)
        have "\<exists>p. getAttributes_loop xs (i + 2) (m(k \<mapsto> v)) = Panic p" by (simp add: fun_upd_def)
        then show ?thesis
          using lt True JString \<open>xs ! i = JString k\<close>
          by (subst getAttributes_loop.simps) simp
      qed (use lt True \<open>xs ! i = JString k\<close> in \<open>subst getAttributes_loop.simps, simp\<close>)+
    next
      case False
      then show ?thesis using lt JString by (subst getAttributes_loop.simps) simp
    qed
  qed (use lt in \<open>subst getAttributes_loop.simps, simp\<close>)+
qed

lemma getAttributes_loop_odd_strings:
  "odd (length xs) \<Longrightarrow> even i \<Longrightarrow> i \<le> length xs \<Longrightarrow> \<forall>x\<in>set xs. is_string x
    \<Longrightarrow> getAttributes_loop xs i m = Panic IndexOutOfRange"
proof (induction xs i m rule: getAttributes_loop.induct)
  case (1 xs i m)
  from "1.prems" have lt: "i < length xs"
    by (metis le_neq_implies_less)
  then have "is_string (xs ! i)" using "1.prems"(4) by simp
  then obtain k where k: "xs ! i = JString k"
    by (cases "xs ! i") (simp_all add: is_string_def)
  show ?case
  proof (cases "i + 1 < length xs")
    case True
    with "1.prems" have le2: "i + 2 \<le> length xs" by simp
    from True have "is_string (xs ! (i + 1))" using "1.prems"(4) by simp
    then obtain v where v: "xs ! (i + 1) = JString v"
      by (cases "xs ! (i + 1)") (simp_all add: is_string_def)
    from "1.IH" [OF lt k True v "1.prems"(1) _ le2 "1.prems"(4)] "1.prems"(2)
    have "getAttributes_loop xs (i + 2) (m(k \<mapsto> v)) = Panic IndexOutOfRange" by (simp add: fun_upd_def)
    then show ?thesis
      using lt True k v by (subst getAttributes_loop.simps) simp
  next
    case False
    then show ?thesis using lt k by (subst getAttributes_loop.simps) simp
  qed
qed

lemma getAttributes_loop_flat:
  "getAttributes_loop (pre @ flat_pairs kvs) (length pre) m
     = Return (fold (\<lambda>(k, v) acc. acc(k \<mapsto> v)) kvs m)"
proof (induction kvs arbitrary: pre m)
  case Nil
  show ?case by (subst getAttributes_loop.simps) (simp add: flat_pairs_def)
next
  case (Cons kv kvs)
  obtain k v where kv: "kv = (k, v)" by (cases kv)
  have split: "pre @ flat_pairs (kv # kvs) = (pre @ [JString k, JString v]) @ flat_pairs kvs"
    by (simp add: flat_pairs_def kv)
  have "getAttributes_loop ((pre @ [JString k, JString v]) @ flat_pairs kvs) (length pre) m
      = getAttributes_loop ((pre @ [JString k, JString v]) @ flat_pairs kvs) (length pre + 2) (m(k \<mapsto> v))"
    by (subst getAttributes_loop.simps) (simp add: nth_append)
  also have "\<dots> = Return (fold (\<lambda>(k, v) acc. acc(k \<mapsto> v)) kvs (m(k \<mapsto> v)))"
    using Cons.IH [of "pre @ [JString k, JString v]" "m(k \<mapsto> v)"] by (simp add: fun_upd_def)
  finally show ?case by (simp add: flat_pairs_def kv del: fun_upd_apply)
qed

lemma fold_upd_map_of:
  "fold (\<lambda>(k, v) acc. acc(k \<mapsto> v)) kvs m = m ++ map_of (rev kvs)"
  by (induction kvs arbitrary: m) (auto simp add: map_add_upd_left fun_eq_iff map_add_def split: option.splits)

lemma getAttributes_flat:
  assumes "map_of node Attributes_key = Some (JArray (flat_pairs kvs))"
  shows "getAttributes node = Return (map_of (rev kvs))"
  using assms getAttributes_loop_flat [of "[]" kvs Map.empty]
  by (simp add: getAttributes_def fold_upd_map_of)




section \<open>Evaluation on concrete inputs\<close>

lemmas eval_defs = getNodeIDStr_def is_zero_def int_of_float64_def trunc_toward_zero_def Itoa_def
  nat_digits.simps digit_char_def getAttributes_def getAttributes_loop.simps
  createNodeInsertUpdate_def ToLower_def ToLower_char_def index_or_empty_def NewDOMModel_def
  getBackendNodeID_def createNodeRemovalUpdate_def generateInitialDOMHelper_emit_def

section \<open>Insertion of a node\<close>

lemma nat_digits_not_Nil: "nat_digits n \<noteq> []"
  by (subst nat_digits.simps) simp

lemma Itoa_not_Nil: "Itoa i \<noteq> []"
  by (simp add: Itoa_def nat_digits_not_Nil)

lemma getNodeIDStr_if:
  "getNodeIDStr node field =
     (if id_field_ok node field then Return (id_string node field)
      else Failure (if map_of node field = None then MissingField field else NotANumber field))"
  by (simp add: id_field_ok_def id_string_def getNodeIDStr_def split: option.splits jvalue.splits)

lemma unknown_ref_iff:
  "unknown_ref d node field \<longleftrightarrow>
     id_field_ok node field \<and> id_string node field \<noteq> [] \<and> nodeIDMapping d (id_string node field) = None"
  by (simp add: unknown_ref_def id_field_ok_def id_string_def Itoa_not_Nil split: option.splits jvalue.splits)

lemma lookup_if:
  "(if s \<noteq> [] then (case nodeIDMapping d s of None \<Rightarrow> Failure E | Some b \<Rightarrow> Return b) else Return s)
     = (if s \<noteq> [] \<and> nodeIDMapping d s = None then Failure E else Return (stable_of d s))"
  by (simp add: stable_of_def index_or_empty_def split: option.splits)

lemma ProcessNodeInsertion_if:
  assumes "map_of payload NodeField_key = Some (JObject nodeDetails)"
  shows "ProcessNodeInsertion d payload =
    (if \<not> id_field_ok payload ParentNodeID_key
       then (d, Failure (if map_of payload ParentNodeID_key = None then MissingField ParentNodeID_key else NotANumber ParentNodeID_key))
     else if unknown_ref d payload ParentNodeID_key then (d, Failure ParentDoesNotExist)
     else if \<not> id_field_ok payload PreviousNodeID_key
       then (d, Failure (if map_of payload PreviousNodeID_key = None then MissingField PreviousNodeID_key else NotANumber PreviousNodeID_key))
     else if unknown_ref d payload PreviousNodeID_key then (d, Failure PreviousDoesNotExist)
     else if \<not> id_field_ok nodeDetails NodeID_key
       then (d, Failure (if map_of nodeDetails NodeID_key = None then MissingField NodeID_key else NotANumber NodeID_key))
     else if \<not> id_field_ok nodeDetails BackendNodeID_key
       then (d, Failure (if map_of nodeDetails BackendNodeID_key = None then MissingField BackendNodeID_key else NotANumber BackendNodeID_key))
     else (case createNodeInsertUpdate d (id_string nodeDetails BackendNodeID_key)
                 (stable_of d (id_string payload ParentNodeID_key))
                 (stable_of d (id_string payload PreviousNodeID_key)) nodeDetails of
             (d1, Return ins) \<Rightarrow>
               (d1\<lparr>nodeIDMapping := (nodeIDMapping d1)
                      (id_string nodeDetails NodeID_key \<mapsto> id_string nodeDetails BackendNodeID_key)\<rparr>,
                Return ins)
           | (d1, Failure e) \<Rightarrow> (d1, Failure e)
           | (d1, Panic p) \<Rightarrow> (d1, Panic p)))"
  unfolding ProcessNodeInsertion_def lookup_if
  by (simp add: assms getNodeIDStr_if unknown_ref_iff)


lemma details_well_formedD:
  assumes "details_well_formed nd"
  shows "\<exists>et tx. map_of nd NodeName_key = Some (JString et) \<and> map_of nd NodeValue_key = Some (JString tx)
       \<and> (ToLower et = ''script'' \<or> (\<exists>m. getAttributes nd = Return m))"
proof (cases "map_of nd NodeName_key")
  case None
  with assms show ?thesis by (simp add: details_well_formed_def)
next
  case name: (Some v)
  show ?thesis
  proof (cases v)
    case (JString et)
    show ?thesis
    proof (cases "map_of nd NodeValue_key")
      case None
      with assms name JString show ?thesis by (simp add: details_well_formed_def)
    next
      case val: (Some w)
      show ?thesis
      proof (cases w)
        case tx: (JString tx)
        from assms name JString val tx
        have "ToLower et = ''script'' \<or> (case getAttributes nd of Return m \<Rightarrow> True | _ \<Rightarrow> False)"
          by (simp add: details_well_formed_def)
        then have "ToLower et = ''script'' \<or> (\<exists>m. getAttributes nd = Return m)"
          by (cases "getAttributes nd") simp_all
        with name JString val tx show ?thesis by simp
      qed (use assms name JString val in \<open>simp_all add: details_well_formed_def\<close>)
    qed
  qed (use assms name in \<open>simp_all add: details_well_formed_def\<close>)
qed

lemma createNodeInsertUpdate_well_formed:
  assumes "details_well_formed nodeDetails"
  shows "\<exists>u. createNodeInsertUpdate d nodeID parentNodeID prevNodeID nodeDetails =
             (d\<lparr>nodeTypeMapping := (nodeTypeMapping d)(nodeID \<mapsto> ElementType (Node u))\<rparr>, Return u)
         \<and> Action u = Insert \<and> NodeID (Node u) = nodeID \<and> ParentNodeID (Node u) = parentNodeID
         \<and> PreviousNodeID (Node u) = prevNodeID
         \<and> map_of nodeDetails NodeName_key = Some (JString (ElementType (Node u)))
         \<and> map_of nodeDetails NodeValue_key = Some (JString (Text (Node u)))
         \<and> (if ToLower (ElementType (Node u)) \<noteq> ''script'' then getAttributes nodeDetails else Return Map.empty)
               = Return (Attributes (Node u))"
proof -
  from details_well_formedD [OF assms] obtain et tx where
    et: "map_of nodeDetails NodeName_key = Some (JString et)" and
    tx: "map_of nodeDetails NodeValue_key = Some (JString tx)" and
    at: "ToLower et = ''script'' \<or> (\<exists>m. getAttributes nodeDetails = Return m)"
    by blast
  from at obtain m where
    m: "(if ToLower et \<noteq> ''script'' then getAttributes nodeDetails else Return Map.empty) = Return m"
    by (cases "ToLower et = ''script''") auto
  show ?thesis
    by (rule exI [of _ "\<lparr>Action = Insert,
          Node = \<lparr>NodeID = nodeID, ParentNodeID = parentNodeID, PreviousNodeID = prevNodeID,
                  ElementType = et, Attributes = m, Text = tx\<rparr>\<rparr>"])
      (simp add: createNodeInsertUpdate_def et tx m)
qed

lemma getAttributes_loop_no_failure: "getAttributes_loop xs i m \<noteq> Failure e"
proof (induction xs i m rule: getAttributes_loop.induct)
  case (1 xs i m)
  show ?case
    using "1.IH"
    by (subst getAttributes_loop.simps) (auto simp add: fun_upd_def split: jvalue.splits)
qed

lemma getAttributes_no_failure: "getAttributes node \<noteq> Failure e"
  by (auto simp add: getAttributes_def getAttributes_loop_no_failure split: option.splits jvalue.splits)

lemma createNodeInsertUpdate_ill_formed:
  assumes "\<not> details_well_formed nodeDetails"
  shows "\<exists>p. createNodeInsertUpdate d nodeID parentNodeID prevNodeID nodeDetails = (d, Panic p)"
proof (cases "map_of nodeDetails NodeName_key")
  case None
  then show ?thesis by (simp add: createNodeInsertUpdate_def)
next
  case (Some v)
  show ?thesis
  proof (cases v)
    case (JString et)
    show ?thesis
    proof (cases "if ToLower et \<noteq> ''script'' then getAttributes nodeDetails else Return Map.empty")
      case (Return m)
      then have at: "ToLower et = ''script'' \<or> (\<exists>m. getAttributes nodeDetails = Return m)"
        by (auto split: if_splits)
      show ?thesis
      proof (cases "map_of nodeDetails NodeValue_key")
        case None
        then show ?thesis using Some JString Return by (simp add: createNodeInsertUpdate_def)
      next
        case (Some w)
        show ?thesis
        proof (cases w)
          case (JString tx)
          with assms Some \<open>map_of nodeDetails NodeName_key = Some v\<close> \<open>v = JString et\<close> at
          have False by (auto simp add: details_well_formed_def)
          then show ?thesis ..
        qed (use Some \<open>map_of nodeDetails NodeName_key = Some v\<close> \<open>v = JString et\<close> Return
              in \<open>simp_all add: createNodeInsertUpdate_def\<close>)
      qed
    next
      case (Failure e)
      then show ?thesis using getAttributes_no_failure [of nodeDetails e] by (auto split: if_splits)
    next
      case (Panic p)
      then show ?thesis using Some JString by (simp add: createNodeInsertUpdate_def)
    qed
  qed (use Some in \<open>simp_all add: createNodeInsertUpdate_def\<close>)
qed

lemma ProcessNodeInsertion_rejected:
  assumes "map_of payload NodeField_key = Some (JObject nodeDetails)"
    and "insertion_rejected d payload nodeDetails"
  shows "\<exists>e. ProcessNodeInsertion d payload = (d, Failure e)"
  using assms(2)
  by (simp add: ProcessNodeInsertion_if [OF assms(1)] insertion_rejected_def) blast

lemma ProcessNodeInsertion_accepted:
  assumes "map_of payload NodeField_key = Some (JObject nodeDetails)"
    and "\<not> insertion_rejected d payload nodeDetails"
  shows "ProcessNodeInsertion d payload =
      (case createNodeInsertUpdate d (id_string nodeDetails BackendNodeID_key)
                 (stable_of d (id_string payload ParentNodeID_key))
                 (stable_of d (id_string payload PreviousNodeID_key)) nodeDetails of
             (d1, Return ins) \<Rightarrow>
               (d1\<lparr>nodeIDMapping := (nodeIDMapping d1)
                      (id_string nodeDetails NodeID_key \<mapsto> id_string nodeDetails BackendNodeID_key)\<rparr>,
                Return ins)
           | (d1, Failure e) \<Rightarrow> (d1, Failure e)
           | (d1, Panic p) \<Rightarrow> (d1, Panic p))"
  using assms(2)
  by (simp add: ProcessNodeInsertion_if [OF assms(1)] insertion_rejected_def)




section \<open>The initial walk on the tree of the test\<close>

text \<open>
  C7. On a fresh model, \<open>GenerateInitialDOM\<close> applied to the root \<open>a\<close> (stable ID 1) with
  the two leaf children \<open>b\<close> (2) and \<open>c\<close> (3) returns exactly three insert updates, for
  1, 2 and 3 in this order, and the previous sibling of \<open>c\<close> is the stable ID of \<open>b\<close>.
\<close>

theorem GenerateInitialDOM_tree_abc:
  "snd (GenerateInitialDOM NewDOMModel tree_abc) =
     Return
       [\<lparr>Action = Insert,
         Node = \<lparr>NodeID = ''1'', ParentNodeID = [], PreviousNodeID = [], ElementType = ''a'',
                 Attributes = [''foo00'' \<mapsto> ''bar00''], Text = ''a''\<rparr>\<rparr>,
        \<lparr>Action = Insert,
         Node = \<lparr>NodeID = ''2'', ParentNodeID = ''1'', PreviousNodeID = [], ElementType = ''b'',
                 Attributes = [''foo10'' \<mapsto> ''bar10''], Text = ''b''\<rparr>\<rparr>,
        \<lparr>Action = Insert,
         Node = \<lparr>NodeID = ''3'', ParentNodeID = ''1'', PreviousNodeID = ''2'', ElementType = ''c'',
                 Attributes = [''foo20'' \<mapsto> ''bar20''], Text = ''c''\<rparr>\<rparr>]"
  by (simp add: GenerateInitialDOM_def tree_abc_def eval_defs)

section \<open>Removal of a node\<close>

lemma GenerateInitialDOM_tree_two_ids:
  "fst (GenerateInitialDOM NewDOMModel tree_two_ids) =
     \<lparr>nodeIDMapping = [''2'' \<mapsto> ''20'', ''1'' \<mapsto> ''10''],
      backendNodeIDs = [''10'' \<mapsto> True, ''20'' \<mapsto> True],
      nodeTypeMapping = [''10'' \<mapsto> ''a'', ''20'' \<mapsto> ''b'']\<rparr>"
  by (simp add: GenerateInitialDOM_def tree_two_ids_def eval_defs)

text \<open>
  C5 fails on the code. After the initial walk of a root (protocol ID 1, stable ID 10)
  with one child (protocol ID 2, stable ID 20), the removal of the child returns the
  remove update for the stable IDs 20 and 10 and deletes the key 2 of \<open>nodeIDMapping\<close>,
  but the entries of the child in \<open>backendNodeIDs\<close> and \<open>nodeTypeMapping\<close>, which are
  kept under the stable ID 20, are still there: the code deletes the key 2 in all
  three maps.
\<close>

theorem ProcessNodeRemoval_keeps_stable_entries:
  "snd (ProcessNodeRemoval (fst (GenerateInitialDOM NewDOMModel tree_two_ids)) removal_of_2)
     = Return \<lparr>Action = Remove,
               Node = \<lparr>NodeID = ''20'', ParentNodeID = ''10'', PreviousNodeID = [],
                       ElementType = [], Attributes = Map.empty, Text = []\<rparr>\<rparr>
   \<and> nodeIDMapping (fst (ProcessNodeRemoval (fst (GenerateInitialDOM NewDOMModel tree_two_ids)) removal_of_2)) ''2'' = None
   \<and> backendNodeIDs (fst (ProcessNodeRemoval (fst (GenerateInitialDOM NewDOMModel tree_two_ids)) removal_of_2)) ''20'' = Some True
   \<and> nodeTypeMapping (fst (ProcessNodeRemoval (fst (GenerateInitialDOM NewDOMModel tree_two_ids)) removal_of_2)) ''20'' = Some ''b''"
  unfolding GenerateInitialDOM_tree_two_ids
  by (simp add: ProcessNodeRemoval_def removal_of_2_def getNodeIDStr_def is_zero_def
      int_of_float64_def trunc_toward_zero_def Itoa_def nat_digits.simps digit_char_def
      getBackendNodeID_def createNodeRemovalUpdate_def)

section \<open>Repeated inserts\<close>

lemma GenerateInitialDOM_tree_root_only:
  "fst (GenerateInitialDOM NewDOMModel tree_root_only) =
     \<lparr>nodeIDMapping = [''1'' \<mapsto> ''1''],
      backendNodeIDs = [''1'' \<mapsto> True],
      nodeTypeMapping = [''1'' \<mapsto> ''A'']\<rparr>"
  by (simp add: GenerateInitialDOM_def tree_root_only_def eval_defs)

lemma ProcessNodeInsertion_of_b:
  "ProcessNodeInsertion
     \<lparr>nodeIDMapping = [''1'' \<mapsto> ''1''], backendNodeIDs = [''1'' \<mapsto> True],
      nodeTypeMapping = [''1'' \<mapsto> ''A'']\<rparr> insertion_of_b =
     (\<lparr>nodeIDMapping = [''1'' \<mapsto> ''1'', ''2'' \<mapsto> ''2''], backendNodeIDs = [''1'' \<mapsto> True],
       nodeTypeMapping = [''1'' \<mapsto> ''A'', ''2'' \<mapsto> ''B'']\<rparr>,
      Return \<lparr>Action = Insert,
              Node = \<lparr>NodeID = ''2'', ParentNodeID = ''1'', PreviousNodeID = [],
                      ElementType = ''B'', Attributes = Map.empty, Text = []\<rparr>\<rparr>)"
  by (simp add: ProcessNodeInsertion_def insertion_of_b_def node_b_def eval_defs)

text \<open>
  C3 fails on the code. After the initial walk of a root with the stable ID 1, the event
  \<open>DOM.childNodeInserted\<close> for a child with the stable ID 2 emits an insert for 2, and the
  event \<open>DOM.setChildNodes\<close> that lists this child emits a second insert for 2:
  \<open>ProcessNodeInsertion\<close> does not record the stable ID in \<open>backendNodeIDs\<close>.
\<close>

theorem stable_id_inserted_twice:
  "snd (ProcessNodeInsertion (fst (GenerateInitialDOM NewDOMModel tree_root_only)) insertion_of_b)
     = Return \<lparr>Action = Insert,
               Node = \<lparr>NodeID = ''2'', ParentNodeID = ''1'', PreviousNodeID = [],
                       ElementType = ''B'', Attributes = Map.empty, Text = []\<rparr>\<rparr>
   \<and> snd (ProcessSetChildNodes
            (fst (ProcessNodeInsertion (fst (GenerateInitialDOM NewDOMModel tree_root_only)) insertion_of_b))
            set_children_b)
     = Return [\<lparr>Action = Insert,
                Node = \<lparr>NodeID = ''2'', ParentNodeID = ''1'', PreviousNodeID = [],
                        ElementType = ''B'', Attributes = Map.empty, Text = []\<rparr>\<rparr>]"
  unfolding GenerateInitialDOM_tree_root_only ProcessNodeInsertion_of_b
  by (simp add: ProcessSetChildNodes_def set_children_b_def node_b_def getNodeIDStr_def is_zero_def
      int_of_float64_def trunc_toward_zero_def Itoa_def nat_digits.simps digit_char_def
      getAttributes_def createNodeInsertUpdate_def ToLower_def ToLower_char_def index_or_empty_def
      getBackendNodeID_def generateInitialDOMHelper_emit_def)

section \<open>Release of an instance\<close>

text \<open>
  C9 (as amended). \<open>RemoveInstance\<close> on an ID that the manager holds returns no error,
  removes the entries of this ID from \<open>instances\<close> and \<open>urls\<close>, leaves every other entry
  and every instance on the heap as it was (the instance is not terminated), and a second
  call with the same ID leaves the state unchanged but returns the error that the instance
  does not exist. On an ID that the manager does not hold it returns this error and
  changes nothing.
\<close>

theorem RemoveInstance_removes_then_errors:
  "(instances (manager w) instanceID \<noteq> None \<longrightarrow>
      snd (RemoveInstance w instanceID) = Return ()
    \<and> instances (manager (fst (RemoveInstance w instanceID))) instanceID = None
    \<and> urls (manager (fst (RemoveInstance w instanceID))) instanceID = None
    \<and> (\<forall>j. j \<noteq> instanceID \<longrightarrow>
          instances (manager (fst (RemoveInstance w instanceID))) j = instances (manager w) j
        \<and> urls (manager (fst (RemoveInstance w instanceID))) j = urls (manager w) j)
    \<and> heap (fst (RemoveInstance w instanceID)) = heap w
    \<and> RemoveInstance (fst (RemoveInstance w instanceID)) instanceID
        = (fst (RemoveInstance w instanceID), Failure InstanceDoesNotExist))
   \<and> (instances (manager w) instanceID = None \<longrightarrow>
        RemoveInstance w instanceID = (w, Failure InstanceDoesNotExist))"
  by (auto simp add: RemoveInstance_def)

theorem RemoveInstance_removes_then_errors_witness:
  "instances (manager world_one) 0 \<noteq> None
   \<and> snd (RemoveInstance world_one 0) = Return ()
   \<and> instances (manager (fst (RemoveInstance world_one 0))) 0 = None
   \<and> urls (manager (fst (RemoveInstance world_one 0))) 0 = None
   \<and> heap (fst (RemoveInstance world_one 0)) 0 = Some \<lparr>port = 9222, connected = True\<rparr>
   \<and> instances (manager world_one) 1 = None
   \<and> RemoveInstance world_one 1 = (world_one, Failure InstanceDoesNotExist)"
  using RemoveInstance_removes_then_errors [of world_one 0]
    RemoveInstance_removes_then_errors [of world_one 1]
  by (simp add: world_one_def RemoveInstance_def)

text \<open>
  C9 as it is written fails: the second release of the same ID does fail, with the error
  that the instance does not exist.
\<close>

theorem RemoveInstance_twice_counterexample:
  "snd (RemoveInstance world_one 0) = Return ()
   \<and> snd (RemoveInstance (fst (RemoveInstance world_one 0)) 0) = Failure InstanceDoesNotExist"
  by (simp add: world_one_def RemoveInstance_def)

section \<open>The walk of the tree\<close>

declare generateInitialDOMHelper.simps [simp del]
declare generateInitialDOMHelper_children.simps [simp del]

lemma createNodeInsertUpdate_Return:
  assumes "createNodeInsertUpdate d nodeID parentNodeID prevNodeID node = (d1, Return u)"
  shows "d1 = d\<lparr>nodeTypeMapping := (nodeTypeMapping d)(nodeID \<mapsto> ElementType (Node u))\<rparr>
       \<and> Action u = Insert \<and> NodeID (Node u) = nodeID \<and> ParentNodeID (Node u) = parentNodeID
       \<and> PreviousNodeID (Node u) = prevNodeID
       \<and> map_of node NodeName_key = Some (JString (ElementType (Node u)))
       \<and> (if ToLower (ElementType (Node u)) \<noteq> ''script'' then getAttributes node else Return Map.empty)
             = Return (Attributes (Node u))"
proof (cases "details_well_formed node")
  case True
  from createNodeInsertUpdate_well_formed [OF True, of d nodeID parentNodeID prevNodeID] assms
  show ?thesis by auto
next
  case False
  from createNodeInsertUpdate_ill_formed [OF False, of d nodeID parentNodeID prevNodeID] assms
  show ?thesis by auto
qed

lemma createNodeInsertUpdate_not_Return:
  assumes "createNodeInsertUpdate d nodeID parentNodeID prevNodeID node = (d1, out)"
    and "\<forall>u. out \<noteq> Return u"
  shows "d1 = d"
proof (cases "details_well_formed node")
  case True
  from createNodeInsertUpdate_well_formed [OF True, of d nodeID parentNodeID prevNodeID] assms
  show ?thesis by auto
next
  case False
  from createNodeInsertUpdate_ill_formed [OF False, of d nodeID parentNodeID prevNodeID] assms
  show ?thesis by auto
qed

text \<open>What the guarded block does, by cases.\<close>

lemma generateInitialDOMHelper_emit_cases:
  assumes "generateInitialDOMHelper_emit d curNode b p q r = (d1, r1, out)"
  shows "(d1 = d \<and> r1 = r \<and> backendNodeIDs d b \<noteq> None)
       \<or> (backendNodeIDs d b = None
           \<and> ToLower (index_or_empty (nodeTypeMapping d) p) = ''script''
           \<and> d1 = d\<lparr>backendNodeIDs := (backendNodeIDs d)(b \<mapsto> True)\<rparr> \<and> r1 = r)
       \<or> (backendNodeIDs d b = None
           \<and> ToLower (index_or_empty (nodeTypeMapping d) p) \<noteq> ''script''
           \<and> d1 = d\<lparr>backendNodeIDs := (backendNodeIDs d)(b \<mapsto> True)\<rparr> \<and> r1 = r
           \<and> (\<forall>u. out \<noteq> Return u))
       \<or> (\<exists>u. backendNodeIDs d b = None
           \<and> ToLower (index_or_empty (nodeTypeMapping d) p) \<noteq> ''script''
           \<and> createNodeInsertUpdate (d\<lparr>backendNodeIDs := (backendNodeIDs d)(b \<mapsto> True)\<rparr>) b p q curNode
                = (d1, Return u)
           \<and> r1 = r @ [u])"
proof (cases "backendNodeIDs d b = None")
  case False
  with assms show ?thesis by (simp add: generateInitialDOMHelper_emit_def)
next
  case new: True
  let ?d0 = "d\<lparr>backendNodeIDs := (backendNodeIDs d)(b \<mapsto> True)\<rparr>"
  show ?thesis
  proof (cases "ToLower (index_or_empty (nodeTypeMapping d) p) = ''script''")
    case True
    with assms new show ?thesis by (simp add: generateInitialDOMHelper_emit_def)
  next
    case ns: False
    obtain dx ox where c: "createNodeInsertUpdate ?d0 b p q curNode = (dx, ox)"
      by (cases "createNodeInsertUpdate ?d0 b p q curNode")
    show ?thesis
    proof (cases ox)
      case (Return u)
      with assms new ns c show ?thesis by (simp add: generateInitialDOMHelper_emit_def)
    next
      case (Failure e)
      with c have "dx = ?d0" using createNodeInsertUpdate_not_Return [of ?d0 b p q curNode dx ox] by simp
      with assms new ns c Failure show ?thesis by (auto simp add: generateInitialDOMHelper_emit_def)
    next
      case (Panic pn)
      with c have "dx = ?d0" using createNodeInsertUpdate_not_Return [of ?d0 b p q curNode dx ox] by simp
      with assms new ns c Panic show ?thesis by (auto simp add: generateInitialDOMHelper_emit_def)
    qed
  qed
qed


lemma generateInitialDOMHelper_unfold:
  assumes "generateInitialDOMHelper d n p q r = (d', r', out)"
  shows "(d' = d \<and> r' = r)
       \<or> (\<exists>b nid d1 r1 o1.
             getNodeIDStr n BackendNodeID_key = Return b
           \<and> getNodeIDStr n NodeID_key = Return nid
           \<and> generateInitialDOMHelper_emit d n b p q r = (d1, r1, o1)
           \<and> ((backendNodeIDs d' = backendNodeIDs d1 \<and> nodeTypeMapping d' = nodeTypeMapping d1 \<and> r' = r1)
              \<or> (\<exists>cs d2 o2. o1 = Return ()
                    \<and> map_of n Children_key = Some (JArray cs)
                    \<and> generateInitialDOMHelper_children d1 cs b [] r1 = (d2, r', o2)
                    \<and> backendNodeIDs d' = backendNodeIDs d2
                    \<and> nodeTypeMapping d' = nodeTypeMapping d2)))"
proof (cases "getNodeIDStr n BackendNodeID_key")
  case (Failure e)
  with assms have "d' = d \<and> r' = r" by (simp add: generateInitialDOMHelper.simps)
  then show ?thesis by blast
next
  case (Panic pn)
  with assms have "d' = d \<and> r' = r" by (simp add: generateInitialDOMHelper.simps)
  then show ?thesis by blast
next
  case b: (Return b)
  show ?thesis
  proof (cases "getNodeIDStr n NodeID_key")
    case (Failure e)
    with assms b have "d' = d \<and> r' = r" by (simp add: generateInitialDOMHelper.simps)
    then show ?thesis by blast
  next
    case (Panic pn)
    with assms b have "d' = d \<and> r' = r" by (simp add: generateInitialDOMHelper.simps)
    then show ?thesis by blast
  next
    case nid: (Return nid)
    obtain d1 r1 o1 where em: "generateInitialDOMHelper_emit d n b p q r = (d1, r1, o1)"
      by (cases "generateInitialDOMHelper_emit d n b p q r") auto
    have direct: ?thesis
      if "backendNodeIDs d' = backendNodeIDs d1 \<and> nodeTypeMapping d' = nodeTypeMapping d1 \<and> r' = r1"
      using b nid em that by blast
    show ?thesis
    proof (cases o1)
      case (Failure e)
      with assms b nid em show ?thesis
        by (intro direct) (simp add: generateInitialDOMHelper.simps)
    next
      case (Panic pn)
      with assms b nid em show ?thesis
        by (intro direct) (simp add: generateInitialDOMHelper.simps)
    next
      case o1: (Return u)
      show ?thesis
      proof (cases "map_of n Children_key")
        case None
        with assms b nid em o1 show ?thesis
          by (intro direct) (auto simp add: generateInitialDOMHelper.simps)
      next
        case ch: (Some v)
        show ?thesis
        proof (cases v)
          case (JArray cs)
          obtain d2 r2 o2 where rec: "generateInitialDOMHelper_children d1 cs b [] r1 = (d2, r2, o2)"
            by (cases "generateInitialDOMHelper_children d1 cs b [] r1") auto
          from assms b nid em o1 ch JArray rec
          have "r' = r2 \<and> backendNodeIDs d' = backendNodeIDs d2 \<and> nodeTypeMapping d' = nodeTypeMapping d2"
            by (cases o2) (auto simp add: generateInitialDOMHelper.simps)
          moreover have "o1 = Return ()" using o1 by simp
          moreover note b nid em ch JArray rec
          ultimately show ?thesis by blast
        next
          case JNull
          with assms b nid em o1 ch show ?thesis
            by (intro direct) (auto simp add: generateInitialDOMHelper.simps)
        next
          case (JBool x)
          with assms b nid em o1 ch show ?thesis
            by (intro direct) (auto simp add: generateInitialDOMHelper.simps)
        next
          case (JNumber x)
          with assms b nid em o1 ch show ?thesis
            by (intro direct) (auto simp add: generateInitialDOMHelper.simps)
        next
          case (JString x)
          with assms b nid em o1 ch show ?thesis
            by (intro direct) (auto simp add: generateInitialDOMHelper.simps)
        next
          case (JObject x)
          with assms b nid em o1 ch show ?thesis
            by (intro direct) (auto simp add: generateInitialDOMHelper.simps)
        qed
      qed
    qed
  qed
qed

lemma generateInitialDOMHelper_children_unfold:
  assumes "generateInitialDOMHelper_children d (c # cs) b q r = (d', r', out)"
  shows "(d' = d \<and> r' = r)
       \<or> (\<exists>x d1 r1 o1. c = JObject x
           \<and> generateInitialDOMHelper d x b q r = (d1, r1, o1)
           \<and> ((d' = d1 \<and> r' = r1)
              \<or> (\<exists>q1. o1 = Return q1
                    \<and> generateInitialDOMHelper_children d1 cs b q1 r1 = (d', r', out))))"
proof (cases c)
  case (JObject x)
  obtain d1 r1 o1 where h: "generateInitialDOMHelper d x b q r = (d1, r1, o1)"
    by (cases "generateInitialDOMHelper d x b q r") auto
  show ?thesis
  proof (cases o1)
    case (Return q1)
    with assms JObject h
    have "generateInitialDOMHelper_children d1 cs b q1 r1 = (d', r', out)"
      by (simp add: generateInitialDOMHelper_children.simps)
    with JObject h Return show ?thesis by blast
  next
    case (Failure e)
    with assms JObject h have "d' = d1 \<and> r' = r1"
      by (simp add: generateInitialDOMHelper_children.simps)
    with JObject h show ?thesis by blast
  next
    case (Panic pn)
    with assms JObject h have "d' = d1 \<and> r' = r1"
      by (simp add: generateInitialDOMHelper_children.simps)
    with JObject h show ?thesis by blast
  qed
next
  case JNull
  with assms have "d' = d \<and> r' = r" by (simp add: generateInitialDOMHelper_children.simps)
  then show ?thesis by blast
next
  case (JBool x)
  with assms have "d' = d \<and> r' = r" by (simp add: generateInitialDOMHelper_children.simps)
  then show ?thesis by blast
next
  case (JNumber x)
  with assms have "d' = d \<and> r' = r" by (simp add: generateInitialDOMHelper_children.simps)
  then show ?thesis by blast
next
  case (JString x)
  with assms have "d' = d \<and> r' = r" by (simp add: generateInitialDOMHelper_children.simps)
  then show ?thesis by blast
next
  case (JArray x)
  with assms have "d' = d \<and> r' = r" by (simp add: generateInitialDOMHelper_children.simps)
  then show ?thesis by blast
qed


text \<open>The induction rule of the walk, with the results of the intermediate calls named.\<close>

lemma walk_induct [case_names node nil cons]:
  assumes node: "\<And>d n p q r.
      (\<And>b nid d1 r1 cs.
          getNodeIDStr n BackendNodeID_key = Return b \<Longrightarrow>
          getNodeIDStr n NodeID_key = Return nid \<Longrightarrow>
          generateInitialDOMHelper_emit d n b p q r = (d1, r1, Return ()) \<Longrightarrow>
          map_of n Children_key = Some (JArray cs) \<Longrightarrow> Q d1 cs b [] r1) \<Longrightarrow>
      P d n p q r"
    and nil: "\<And>d b q r. Q d [] b q r"
    and cons: "\<And>d c cs b q r.
      (\<And>x. c = JObject x \<Longrightarrow> P d x b q r) \<Longrightarrow>
      (\<And>x d1 r1 q1. c = JObject x \<Longrightarrow>
          generateInitialDOMHelper d x b q r = (d1, r1, Return q1) \<Longrightarrow> Q d1 cs b q1 r1) \<Longrightarrow>
      Q d (c # cs) b q r"
  shows "P d n p q r" and "Q d cs b q r"
proof (induction d n p q r and d cs b q r
    rule: generateInitialDOMHelper_generateInitialDOMHelper_children.induct)
  case (1 d n p q r)
  show ?case
  proof (rule node)
    fix b nid d1 r1 cs
    assume a1: "getNodeIDStr n BackendNodeID_key = Return b"
      and a2: "getNodeIDStr n NodeID_key = Return nid"
      and em: "generateInitialDOMHelper_emit d n b p q r = (d1, r1, Return ())"
      and ch: "map_of n Children_key = Some (JArray cs)"
    show "Q d1 cs b [] r1"
      by (rule "1" [OF a1 a2 em [symmetric] refl refl ch refl])
  qed
next
  case (2 d b q r)
  show ?case by (rule nil)
next
  case (3 d c cs b q r)
  show ?case
  proof (rule cons)
    fix x assume "c = JObject x"
    then show "P d x b q r" by (rule "3"(1))
  next
    fix x d1 r1 q1
    assume c: "c = JObject x"
      and h: "generateInitialDOMHelper d x b q r = (d1, r1, Return q1)"
    show "Q d1 cs b q1 r1"
      by (rule "3"(2) [OF c h [symmetric] refl refl])
  qed
qed


subsection \<open>No insert below a recorded script element\<close>

lemma grows_refl: "grows d d"
  by (simp add: grows_def)

lemma grows_trans: "grows d d1 \<Longrightarrow> grows d1 d2 \<Longrightarrow> grows d d2"
  unfolding grows_def by metis

lemma grows_cong:
  "grows d d2 \<Longrightarrow> backendNodeIDs d' = backendNodeIDs d2 \<Longrightarrow>
     nodeTypeMapping d' = nodeTypeMapping d2 \<Longrightarrow> grows d d'"
  by (simp add: grows_def)

lemma parent_not_script_cong:
  "parent_not_script d d2 p u \<Longrightarrow> backendNodeIDs d' = backendNodeIDs d2 \<Longrightarrow>
     nodeTypeMapping d' = nodeTypeMapping d2 \<Longrightarrow> parent_not_script d d' p u"
  by (simp add: parent_not_script_def kind_is_script_def)

lemma grows_known:
  "grows d1 d2 \<Longrightarrow> backendNodeIDs d1 k \<noteq> None \<Longrightarrow>
     backendNodeIDs d2 k \<noteq> None \<and> kind_is_script d2 k = kind_is_script d1 k"
  by (simp add: grows_def kind_is_script_def index_or_empty_def)

lemma grows_unknown:
  "grows d1 d2 \<Longrightarrow> backendNodeIDs d2 k = None \<Longrightarrow> kind_is_script d2 k = kind_is_script d1 k"
  by (simp add: grows_def kind_is_script_def index_or_empty_def)

lemma parent_not_script_later:
  assumes "parent_not_script d d1 p u" and "grows d1 d2"
  shows "parent_not_script d d2 p u"
proof (cases "backendNodeIDs d1 (ParentNodeID (Node u)) \<noteq> None
              \<and> \<not> kind_is_script d1 (ParentNodeID (Node u))")
  case True
  with grows_known [OF assms(2), of "ParentNodeID (Node u)"] show ?thesis
    by (simp add: parent_not_script_def)
next
  case False
  with assms(1) show ?thesis by (auto simp add: parent_not_script_def)
qed

lemma parent_not_script_below:
  assumes "parent_not_script d1 d2 b u" and "backendNodeIDs d1 b \<noteq> None" and "grows d1 d2"
  shows "parent_not_script d d2 p u"
proof (cases "backendNodeIDs d2 (ParentNodeID (Node u)) \<noteq> None
              \<and> \<not> kind_is_script d2 (ParentNodeID (Node u))")
  case True
  then show ?thesis by (simp add: parent_not_script_def)
next
  case False
  with assms(1) have "ParentNodeID (Node u) = b" and "\<not> kind_is_script d1 b"
    by (auto simp add: parent_not_script_def)
  with grows_known [OF assms(3,2)] False show ?thesis by simp
qed

lemma parent_not_script_rebase:
  assumes "parent_not_script d1 d2 p u" and "grows d d1" and "grows d1 d2"
  shows "parent_not_script d d2 p u"
proof (cases "backendNodeIDs d2 (ParentNodeID (Node u)) \<noteq> None
              \<and> \<not> kind_is_script d2 (ParentNodeID (Node u))")
  case True
  then show ?thesis by (simp add: parent_not_script_def)
next
  case False
  with assms(1) have par: "ParentNodeID (Node u) = p" and ns: "\<not> kind_is_script d1 p"
    by (auto simp add: parent_not_script_def)
  show ?thesis
  proof (cases "backendNodeIDs d1 p = None")
    case True
    from grows_unknown [OF assms(2) True] ns have "\<not> kind_is_script d p" by simp
    with par show ?thesis by (simp add: parent_not_script_def)
  next
    case known: False
    from grows_known [OF assms(3) known] ns par False show ?thesis by simp
  qed
qed

lemma emit_parent_not_script:
  assumes em: "generateInitialDOMHelper_emit d n b p q r = (d1, r1, o1)"
  shows "grows d d1 \<and> backendNodeIDs d1 b \<noteq> None
       \<and> (\<exists>es. r1 = r @ es \<and> list_all (parent_not_script d d1 p) es)"
proof -
  let ?d0 = "d\<lparr>backendNodeIDs := (backendNodeIDs d)(b \<mapsto> True)\<rparr>"
  from generateInitialDOMHelper_emit_cases [OF em]
  consider (old) "d1 = d" "r1 = r" "backendNodeIDs d b \<noteq> None"
    | (silent) "d1 = ?d0" "r1 = r"
    | (ins) u where "backendNodeIDs d b = None"
        "ToLower (index_or_empty (nodeTypeMapping d) p) \<noteq> ''script''"
        "createNodeInsertUpdate ?d0 b p q n = (d1, Return u)" "r1 = r @ [u]"
    by blast
  then show ?thesis
  proof cases
    case old
    then show ?thesis by (simp add: grows_refl)
  next
    case silent
    then show ?thesis by (auto simp add: grows_def)
  next
    case ins
    from createNodeInsertUpdate_Return [OF ins(3)]
    have d1: "d1 = ?d0\<lparr>nodeTypeMapping := (nodeTypeMapping ?d0)(b \<mapsto> ElementType (Node u))\<rparr>"
      and par: "ParentNodeID (Node u) = p"
      by simp_all
    from d1 ins(1) have "grows d d1" by (auto simp add: grows_def)
    moreover from d1 have "backendNodeIDs d1 b \<noteq> None" by simp
    moreover from par ins(2) have "parent_not_script d d1 p u"
      by (simp add: parent_not_script_def kind_is_script_def)
    ultimately show ?thesis using ins(4) by simp
  qed
qed

lemma walk_parent_not_script:
  shows "\<forall>d' r' out. generateInitialDOMHelper d n p q r = (d', r', out) \<longrightarrow>
           grows d d' \<and> (\<exists>es. r' = r @ es \<and> list_all (parent_not_script d d' p) es)"
    and "\<forall>d' r' out. generateInitialDOMHelper_children d cs b q r = (d', r', out) \<longrightarrow>
           grows d d' \<and> (\<exists>es. r' = r @ es \<and> list_all (parent_not_script d d' b) es)"
proof (induction d n p q r and d cs b q r rule: walk_induct)
  case (node d n p q r)
  show ?case
  proof (intro allI impI)
    fix d' r' out
    assume run: "generateInitialDOMHelper d n p q r = (d', r', out)"
    from generateInitialDOMHelper_unfold [OF run]
    consider (early) "d' = d" "r' = r"
      | (direct) b d1 r1 o1 where
          "generateInitialDOMHelper_emit d n b p q r = (d1, r1, o1)"
          "backendNodeIDs d' = backendNodeIDs d1" "nodeTypeMapping d' = nodeTypeMapping d1" "r' = r1"
      | (rec) b nid d1 r1 cs d2 o2 where
          "getNodeIDStr n BackendNodeID_key = Return b" "getNodeIDStr n NodeID_key = Return nid"
          "generateInitialDOMHelper_emit d n b p q r = (d1, r1, Return ())"
          "map_of n Children_key = Some (JArray cs)"
          "generateInitialDOMHelper_children d1 cs b [] r1 = (d2, r', o2)"
          "backendNodeIDs d' = backendNodeIDs d2" "nodeTypeMapping d' = nodeTypeMapping d2"
      by blast
    then show "grows d d' \<and> (\<exists>es. r' = r @ es \<and> list_all (parent_not_script d d' p) es)"
    proof cases
      case early
      then show ?thesis by (simp add: grows_refl)
    next
      case direct
      from emit_parent_not_script [OF direct(1)] obtain es where
        g: "grows d d1" and es: "r1 = r @ es" "list_all (parent_not_script d d1 p) es" by blast
      from g direct(2,3) have "grows d d'" by (rule grows_cong)
      moreover from es(2) direct(2,3) have "list_all (parent_not_script d d' p) es"
        by (auto simp add: list_all_iff intro: parent_not_script_cong)
      ultimately show ?thesis using es(1) direct(4) by blast
    next
      case rec
      from emit_parent_not_script [OF rec(3)] obtain es1 where
        g1: "grows d d1" and k1: "backendNodeIDs d1 b \<noteq> None"
        and es1: "r1 = r @ es1" "list_all (parent_not_script d d1 p) es1" by blast
      from node [OF rec(1,2,3,4)] rec(5) obtain es2 where
        g2: "grows d1 d2" and es2: "r' = r1 @ es2" "list_all (parent_not_script d1 d2 b) es2"
        by blast
      from g1 g2 have "grows d d2" by (rule grows_trans)
      then have g: "grows d d'" using rec(6,7) by (rule grows_cong)
      have "list_all (parent_not_script d d2 p) es1"
        using es1(2) g2 by (auto simp add: list_all_iff intro: parent_not_script_later)
      moreover have "list_all (parent_not_script d d2 p) es2"
        using es2(2) k1 g2 by (auto simp add: list_all_iff intro: parent_not_script_below)
      ultimately have "list_all (parent_not_script d d' p) (es1 @ es2)"
        using rec(6,7) by (auto simp add: list_all_iff intro: parent_not_script_cong)
      moreover have "r' = r @ (es1 @ es2)" using es1(1) es2(1) by simp
      ultimately show ?thesis using g by blast
    qed
  qed
next
  case (nil d b q r)
  show ?case by (simp add: generateInitialDOMHelper_children.simps grows_refl)
next
  case (cons d c cs b q r)
  show ?case
  proof (intro allI impI)
    fix d' r' out
    assume run: "generateInitialDOMHelper_children d (c # cs) b q r = (d', r', out)"
    from generateInitialDOMHelper_children_unfold [OF run]
    consider (early) "d' = d" "r' = r"
      | (stop) x o1 where "c = JObject x" "generateInitialDOMHelper d x b q r = (d', r', o1)"
      | (rec) x d1 r1 q1 where "c = JObject x"
          "generateInitialDOMHelper d x b q r = (d1, r1, Return q1)"
          "generateInitialDOMHelper_children d1 cs b q1 r1 = (d', r', out)"
      by blast
    then show "grows d d' \<and> (\<exists>es. r' = r @ es \<and> list_all (parent_not_script d d' b) es)"
    proof cases
      case early
      then show ?thesis by (simp add: grows_refl)
    next
      case stop
      from cons(1) [OF stop(1)] stop(2) show ?thesis by blast
    next
      case rec
      from cons(1) [OF rec(1)] rec(2) obtain es1 where
        g1: "grows d d1" and es1: "r1 = r @ es1" "list_all (parent_not_script d d1 b) es1"
        by blast
      from cons(2) [OF rec(1,2)] rec(3) obtain es2 where
        g2: "grows d1 d'" and es2: "r' = r1 @ es2" "list_all (parent_not_script d1 d' b) es2"
        by blast
      from g1 g2 have g: "grows d d'" by (rule grows_trans)
      have "list_all (parent_not_script d d' b) es1"
        using es1(2) g2 by (auto simp add: list_all_iff intro: parent_not_script_later)
      moreover have "list_all (parent_not_script d d' b) es2"
        using es2(2) g1 g2 by (auto simp add: list_all_iff intro: parent_not_script_rebase)
      ultimately have "list_all (parent_not_script d d' b) (es1 @ es2)" by simp
      moreover have "r' = r @ (es1 @ es2)" using es1(1) es2(1) by simp
      ultimately show ?thesis using g by blast
    qed
  qed
qed


subsection \<open>Every insert of the walk is the insert of a node of the tree\<close>

lemma createNodeInsertUpdate_is_insert_of:
  "createNodeInsertUpdate d b p q n = (d1, Return u) \<Longrightarrow> is_insert_of n u"
  using createNodeInsertUpdate_Return [of d b p q n d1 u] by (simp add: is_insert_of_def)

lemma emit_appends_insert:
  assumes "generateInitialDOMHelper_emit d n b p q r = (d1, r1, o1)"
  shows "\<exists>es. r1 = r @ es \<and> list_all (is_insert_of n) es"
proof -
  from generateInitialDOMHelper_emit_cases [OF assms]
  consider "r1 = r"
    | u where "createNodeInsertUpdate (d\<lparr>backendNodeIDs := (backendNodeIDs d)(b \<mapsto> True)\<rparr>) b p q n
                 = (d1, Return u)" "r1 = r @ [u]"
    by blast
  then show ?thesis
  proof cases
    case 1
    then show ?thesis by simp
  next
    case 2
    from createNodeInsertUpdate_is_insert_of [OF 2(1)] 2(2) show ?thesis by simp
  qed
qed

lemma walk_emits_inserts:
  shows "\<forall>d' r' out. generateInitialDOMHelper d n p q r = (d', r', out) \<longrightarrow>
           (\<exists>es. r' = r @ es \<and> list_all (\<lambda>u. \<exists>m. subnode m n \<and> is_insert_of m u) es)"
    and "\<forall>d' r' out. generateInitialDOMHelper_children d cs b q r = (d', r', out) \<longrightarrow>
           (\<exists>es. r' = r @ es
              \<and> list_all (\<lambda>u. \<exists>c m. JObject c \<in> set cs \<and> subnode m c \<and> is_insert_of m u) es)"
proof (induction d n p q r and d cs b q r rule: walk_induct)
  case (node d n p q r)
  show ?case
  proof (intro allI impI)
    fix d' r' out
    assume run: "generateInitialDOMHelper d n p q r = (d', r', out)"
    from generateInitialDOMHelper_unfold [OF run]
    consider (early) "r' = r"
      | (direct) b d1 r1 o1 where
          "generateInitialDOMHelper_emit d n b p q r = (d1, r1, o1)" "r' = r1"
      | (rec) b nid d1 r1 cs d2 o2 where
          "getNodeIDStr n BackendNodeID_key = Return b" "getNodeIDStr n NodeID_key = Return nid"
          "generateInitialDOMHelper_emit d n b p q r = (d1, r1, Return ())"
          "map_of n Children_key = Some (JArray cs)"
          "generateInitialDOMHelper_children d1 cs b [] r1 = (d2, r', o2)"
      by blast
    then show "\<exists>es. r' = r @ es \<and> list_all (\<lambda>u. \<exists>m. subnode m n \<and> is_insert_of m u) es"
    proof cases
      case early
      then show ?thesis by simp
    next
      case direct
      from emit_appends_insert [OF direct(1)] obtain es where
        "r1 = r @ es" "list_all (is_insert_of n) es" by blast
      with direct(2) have "r' = r @ es \<and> list_all (\<lambda>u. \<exists>m. subnode m n \<and> is_insert_of m u) es"
        by (auto simp add: list_all_iff intro: subnode_self)
      then show ?thesis by blast
    next
      case rec
      from emit_appends_insert [OF rec(3)] obtain es1 where
        es1: "r1 = r @ es1" "list_all (is_insert_of n) es1" by blast
      from node [OF rec(1,2,3,4)] rec(5) obtain es2 where
        es2: "r' = r1 @ es2"
          "list_all (\<lambda>u. \<exists>c m. JObject c \<in> set cs \<and> subnode m c \<and> is_insert_of m u) es2"
        by blast
      have "list_all (\<lambda>u. \<exists>m. subnode m n \<and> is_insert_of m u) es1"
        using es1(2) by (auto simp add: list_all_iff intro: subnode_self)
      moreover have "list_all (\<lambda>u. \<exists>m. subnode m n \<and> is_insert_of m u) es2"
        using es2(2) rec(4) unfolding list_all_iff by (meson subnode_child)
      ultimately have "r' = r @ (es1 @ es2)
          \<and> list_all (\<lambda>u. \<exists>m. subnode m n \<and> is_insert_of m u) (es1 @ es2)"
        using es1(1) es2(1) by simp
      then show ?thesis by blast
    qed
  qed
next
  case (nil d b q r)
  show ?case by (simp add: generateInitialDOMHelper_children.simps)
next
  case (cons d c cs b q r)
  show ?case
  proof (intro allI impI)
    fix d' r' out
    assume run: "generateInitialDOMHelper_children d (c # cs) b q r = (d', r', out)"
    let ?ok = "\<lambda>u. \<exists>c' m. JObject c' \<in> set (c # cs) \<and> subnode m c' \<and> is_insert_of m u"
    from generateInitialDOMHelper_children_unfold [OF run]
    consider (early) "r' = r"
      | (stop) x o1 where "c = JObject x" "generateInitialDOMHelper d x b q r = (d', r', o1)"
      | (rec) x d1 r1 q1 where "c = JObject x"
          "generateInitialDOMHelper d x b q r = (d1, r1, Return q1)"
          "generateInitialDOMHelper_children d1 cs b q1 r1 = (d', r', out)"
      by blast
    then show "\<exists>es. r' = r @ es \<and> list_all ?ok es"
    proof cases
      case early
      then show ?thesis by simp
    next
      case stop
      from cons(1) [OF stop(1)] stop(2) obtain es where
        es: "r' = r @ es" "list_all (\<lambda>u. \<exists>m. subnode m x \<and> is_insert_of m u) es" by blast
      from es(2) stop(1) have "list_all ?ok es"
        unfolding list_all_iff by (meson list.set_intros(1))
      with es(1) show ?thesis by blast
    next
      case rec
      from cons(1) [OF rec(1)] rec(2) obtain es1 where
        es1: "r1 = r @ es1" "list_all (\<lambda>u. \<exists>m. subnode m x \<and> is_insert_of m u) es1" by blast
      from cons(2) [OF rec(1,2)] rec(3) obtain es2 where
        es2: "r' = r1 @ es2"
          "list_all (\<lambda>u. \<exists>c m. JObject c \<in> set cs \<and> subnode m c \<and> is_insert_of m u) es2"
        by blast
      from es1(2) rec(1) have "list_all ?ok es1"
        unfolding list_all_iff by (meson list.set_intros(1))
      moreover from es2(2) have "list_all ?ok es2"
        unfolding list_all_iff by (meson list.set_intros(2))
      ultimately have "r' = r @ (es1 @ es2) \<and> list_all ?ok (es1 @ es2)"
        using es1(1) es2(1) by simp
      then show ?thesis by blast
    qed
  qed
qed


subsection \<open>The loop over the nodes of a \<open>setChildNodes\<close> event\<close>

lemma ProcessSetChildNodes_loop_parent_not_script:
  "ProcessSetChildNodes_loop d nodes pb prev result = (d', out) \<Longrightarrow>
     grows d d' \<and> (\<forall>us. out = Return us \<longrightarrow>
        (\<exists>es. us = result @ es \<and> list_all (parent_not_script d d' pb) es))"
proof (induction nodes arbitrary: d prev result)
  case Nil
  then show ?case by (auto simp add: grows_refl)
next
  case (Cons c nodes)
  show ?case
  proof (cases c)
    case (JObject curNode)
    obtain d1 sub o1 where h: "generateInitialDOMHelper d curNode pb prev [] = (d1, sub, o1)"
      by (cases "generateInitialDOMHelper d curNode pb prev []") auto
    from walk_parent_not_script(1) [of d curNode pb prev "[]"] h
    have g1: "grows d d1" and s1: "list_all (parent_not_script d d1 pb) sub" by auto
    show ?thesis
    proof (cases "\<exists>p. o1 = Panic p")
      case True
      with Cons.prems JObject h g1 show ?thesis by auto
    next
      case False
      define prev1 where "prev1 =
        (case getNodeIDStr curNode BackendNodeID_key of Return s \<Rightarrow> s | Failure e \<Rightarrow> [] | Panic p \<Rightarrow> [])"
      from False Cons.prems JObject h
      have rest: "ProcessSetChildNodes_loop d1 nodes pb prev1 (result @ sub) = (d', out)"
        by (cases o1) (auto simp add: prev1_def)
      from Cons.IH [OF rest]
      have g2: "grows d1 d'"
        and r2: "\<forall>us. out = Return us \<longrightarrow>
          (\<exists>es. us = (result @ sub) @ es \<and> list_all (parent_not_script d1 d' pb) es)"
        by simp_all
      from g1 g2 have g: "grows d d'" by (rule grows_trans)
      have "\<exists>es. us = result @ es \<and> list_all (parent_not_script d d' pb) es" if "out = Return us" for us
      proof -
        from r2 that obtain es where
          es: "us = (result @ sub) @ es" "list_all (parent_not_script d1 d' pb) es" by blast
        have "list_all (parent_not_script d d' pb) sub"
          using s1 g2 by (auto simp add: list_all_iff intro: parent_not_script_later)
        moreover have "list_all (parent_not_script d d' pb) es"
          using es(2) g1 g2 by (auto simp add: list_all_iff intro: parent_not_script_rebase)
        ultimately have "list_all (parent_not_script d d' pb) (sub @ es)" by simp
        with es(1) show ?thesis by auto
      qed
      with g show ?thesis by blast
    qed
  qed (use Cons.prems in \<open>auto simp add: grows_refl\<close>)
qed

lemma ProcessSetChildNodes_loop_emits_inserts:
  "ProcessSetChildNodes_loop d nodes pb prev result = (d', Return us) \<Longrightarrow>
     \<exists>es. us = result @ es
       \<and> list_all (\<lambda>u. \<exists>c m. JObject c \<in> set nodes \<and> subnode m c \<and> is_insert_of m u) es"
proof (induction nodes arbitrary: d prev result)
  case Nil
  then show ?case by auto
next
  case (Cons c nodes)
  let ?ok = "\<lambda>u. \<exists>c' m. JObject c' \<in> set (c # nodes) \<and> subnode m c' \<and> is_insert_of m u"
  show ?case
  proof (cases c)
    case (JObject curNode)
    obtain d1 sub o1 where h: "generateInitialDOMHelper d curNode pb prev [] = (d1, sub, o1)"
      by (cases "generateInitialDOMHelper d curNode pb prev []") auto
    from walk_emits_inserts(1) [of d curNode pb prev "[]"] h
    have s1: "list_all (\<lambda>u. \<exists>m. subnode m curNode \<and> is_insert_of m u) sub" by auto
    define prev1 where "prev1 =
      (case getNodeIDStr curNode BackendNodeID_key of Return s \<Rightarrow> s | Failure e \<Rightarrow> [] | Panic p \<Rightarrow> [])"
    from Cons.prems JObject h
    have rest: "ProcessSetChildNodes_loop d1 nodes pb prev1 (result @ sub) = (d', Return us)"
      by (cases o1) (auto simp add: prev1_def)
    from Cons.IH [OF rest] obtain es where
      es: "us = (result @ sub) @ es"
        "list_all (\<lambda>u. \<exists>c m. JObject c \<in> set nodes \<and> subnode m c \<and> is_insert_of m u) es"
      by blast
    from s1 JObject have "list_all ?ok sub"
      unfolding list_all_iff by (meson list.set_intros(1))
    moreover from es(2) have "list_all ?ok es"
      unfolding list_all_iff by (meson list.set_intros(2))
    ultimately have "list_all ?ok (sub @ es)" by simp
    with es(1) show ?thesis by auto
  qed (use Cons.prems in auto)
qed

subsection \<open>What the three operations emit\<close>

lemma GenerateInitialDOM_tree_under_script:
  "GenerateInitialDOM NewDOMModel tree_under_script =
     (\<lparr>nodeIDMapping = [''4'' \<mapsto> ''4'', ''3'' \<mapsto> ''3'', ''2'' \<mapsto> ''2'', ''1'' \<mapsto> ''1''],
       backendNodeIDs = [''1'' \<mapsto> True, ''2'' \<mapsto> True, ''3'' \<mapsto> True, ''4'' \<mapsto> True],
       nodeTypeMapping = [''1'' \<mapsto> ''HTML'', ''2'' \<mapsto> ''SCRIPT'', ''4'' \<mapsto> ''#text'']\<rparr>,
      Return
       [\<lparr>Action = Insert,
         Node = \<lparr>NodeID = ''1'', ParentNodeID = [], PreviousNodeID = [], ElementType = ''HTML'',
                 Attributes = Map.empty, Text = []\<rparr>\<rparr>,
        \<lparr>Action = Insert,
         Node = \<lparr>NodeID = ''2'', ParentNodeID = ''1'', PreviousNodeID = [], ElementType = ''SCRIPT'',
                 Attributes = Map.empty, Text = []\<rparr>\<rparr>,
        \<lparr>Action = Insert,
         Node = \<lparr>NodeID = ''4'', ParentNodeID = ''3'', PreviousNodeID = [], ElementType = ''#text'',
                 Attributes = Map.empty, Text = ''x''\<rparr>\<rparr>])"
  by (simp add: GenerateInitialDOM_def tree_under_script_def eval_defs
      generateInitialDOMHelper.simps generateInitialDOMHelper_children.simps)

lemma ProcessSetChildNodes_body:
  "ProcessSetChildNodes
     \<lparr>nodeIDMapping = [''4'' \<mapsto> ''4'', ''3'' \<mapsto> ''3'', ''2'' \<mapsto> ''2'', ''1'' \<mapsto> ''1''],
      backendNodeIDs = [''1'' \<mapsto> True, ''2'' \<mapsto> True, ''3'' \<mapsto> True, ''4'' \<mapsto> True],
      nodeTypeMapping = [''1'' \<mapsto> ''HTML'', ''2'' \<mapsto> ''SCRIPT'', ''4'' \<mapsto> ''#text'']\<rparr>
     set_children_body =
     (\<lparr>nodeIDMapping = [''4'' \<mapsto> ''4'', ''3'' \<mapsto> ''3'', ''2'' \<mapsto> ''2'', ''1'' \<mapsto> ''1'', ''6'' \<mapsto> ''6''],
       backendNodeIDs = [''1'' \<mapsto> True, ''2'' \<mapsto> True, ''3'' \<mapsto> True, ''4'' \<mapsto> True, ''6'' \<mapsto> True],
       nodeTypeMapping = [''1'' \<mapsto> ''HTML'', ''2'' \<mapsto> ''SCRIPT'', ''4'' \<mapsto> ''#text'', ''6'' \<mapsto> ''BODY'']\<rparr>,
      Return
       [\<lparr>Action = Insert,
         Node = \<lparr>NodeID = ''6'', ParentNodeID = ''1'', PreviousNodeID = [], ElementType = ''BODY'',
                 Attributes = [''onload'' \<mapsto> ''g()''], Text = []\<rparr>\<rparr>])"
  by (simp add: ProcessSetChildNodes_def set_children_body_def eval_defs
      generateInitialDOMHelper.simps generateInitialDOMHelper_children.simps)

lemma ProcessNodeInsertion_onclick:
  "ProcessNodeInsertion NewDOMModel payload_onclick =
     (\<lparr>nodeIDMapping = [''5'' \<mapsto> ''5''], backendNodeIDs = Map.empty,
       nodeTypeMapping = [''5'' \<mapsto> ''DIV'']\<rparr>,
      Return \<lparr>Action = Insert,
              Node = \<lparr>NodeID = ''5'', ParentNodeID = [], PreviousNodeID = [], ElementType = ''DIV'',
                      Attributes = [''onclick'' \<mapsto> ''f()''], Text = []\<rparr>\<rparr>)"
  by (simp add: ProcessNodeInsertion_def payload_onclick_def eval_defs)







end
